theory Spec2Isabelle
  imports Main "HOL-Library.Sublist"
begin

section \<open>Go values used by the handler\<close>

text \<open>
  A Go \<open>error\<close> value is either an AWS SDK error (it answers \<open>Code()\<close>,
  \<open>Message()\<close> and \<open>Error()\<close>) or any other error, of which only the
  \<open>Error()\<close> text is observable. A nil error is \<open>None\<close> of
  \<open>go_error option\<close>.
\<close>

datatype go_error =
    awserr_Error (Code: string) (Message: string) (ErrorText: string)
  | errorString string

fun Error :: "go_error \<Rightarrow> string" where
  "Error (awserr_Error c m t) = t"
| "Error (errorString s) = s"

text \<open>
  Modelled from the spec: \<open>isAWSErr\<close> (aws/awserr.go, not among the sources) tells
  whether an error is a remote error with a fixed error-code string; the message argument
  must occur in the error's message (the handler always passes the empty string).
\<close>

definition isAWSErr :: "go_error option \<Rightarrow> string \<Rightarrow> string \<Rightarrow> bool" where
  "isAWSErr err code message =
     (case err of
        Some (awserr_Error c m t) \<Rightarrow> c = code \<and> sublist message m
      | _ \<Rightarrow> False)"

text \<open>The SDK's pointer helpers: a nil pointer reads as the zero value.\<close>

definition aws_String :: "string \<Rightarrow> string option" where
  "aws_String s = Some s"

definition aws_StringValue :: "string option \<Rightarrow> string" where
  "aws_StringValue p = (case p of None \<Rightarrow> [] | Some s \<Rightarrow> s)"

definition aws_BoolValue :: "bool option \<Rightarrow> bool" where
  "aws_BoolValue p = (case p of None \<Rightarrow> False | Some b \<Rightarrow> b)"

text \<open>Constants of the EC2 service package.\<close>

definition TransitGatewayRouteTableStateDeleting :: string where
  "TransitGatewayRouteTableStateDeleting = ''deleting''"

definition TransitGatewayRouteTableStateDeleted :: string where
  "TransitGatewayRouteTableStateDeleted = ''deleted''"

definition ResourceTypeTransitGatewayRouteTable :: string where
  "ResourceTypeTransitGatewayRouteTable = ''transit-gateway-route-table''"

definition ServiceName :: string where
  "ServiceName = ''ec2''"

section \<open>Remote request and response shapes\<close>

record Tag =
  Key :: "string option"
  Value :: "string option"

record TransitGatewayRouteTable =
  DefaultAssociationRouteTable :: "bool option"
  DefaultPropagationRouteTable :: "bool option"
  State :: "string option"
  Tags :: "Tag list"
  TransitGatewayId :: "string option"
  TransitGatewayRouteTableId :: "string option"

text \<open>
  \<open>ec2TagSpecificationsFromMap\<close> (aws/tags.go) is not among the sources; its
  result is kept as an uninterpreted term over the tag mapping and the resource type.
\<close>

datatype TagSpecifications =
  ec2TagSpecificationsFromMap "string \<rightharpoonup> string" string

record CreateTransitGatewayRouteTableInput =
  CreateInput_TransitGatewayId :: "string option"
  CreateInput_TagSpecifications :: TagSpecifications

record CreateTransitGatewayRouteTableOutput =
  Output_TransitGatewayRouteTable :: "TransitGatewayRouteTable option"

record DeleteTransitGatewayRouteTableInput =
  DeleteInput_TransitGatewayRouteTableId :: "string option"

record ARN =
  Partition :: string
  Service :: string
  Region :: string
  AccountID :: string
  Resource :: string

text \<open>The SDK's \<open>arn.ARN.String\<close>: the five sections after the \<open>arn:\<close> prefix, colon separated.\<close>

definition ARN_String :: "ARN \<Rightarrow> string" where
  "ARN_String a =
     ''arn:'' @ Partition a @ '':'' @ Service a @ '':'' @ Region a @ '':'' @
     AccountID a @ '':'' @ Resource a"

section \<open>The framework's resource data\<close>

datatype ValueType = TypeBool | TypeString | TypeMap

datatype attr_value =
    VNil
  | VBool bool
  | VString string
  | VMap "string \<rightharpoonup> string"

fun type_of_value :: "attr_value \<Rightarrow> ValueType option" where
  "type_of_value VNil = None"
| "type_of_value (VBool b) = Some TypeBool"
| "type_of_value (VString s) = Some TypeString"
| "type_of_value (VMap m) = Some TypeMap"

fun ZeroValue :: "ValueType \<Rightarrow> attr_value" where
  "ZeroValue TypeBool = VBool False"
| "ZeroValue TypeString = VString []"
| "ZeroValue TypeMap = VMap Map.empty"

record Schema =
  Type :: ValueType
  Computed :: bool
  Required :: bool
  ForceNew :: bool

text \<open>
  Modelled from the spec: \<open>tagsSchema\<close> (aws/tags.go, not among the sources) declares
  the tags attribute, a user-mutable mapping of tag keys to tag values.
\<close>

definition tagsSchema :: Schema where
  "tagsSchema = \<lparr>Type = TypeMap, Computed = False, Required = False, ForceNew = False\<rparr>"

text \<open>
  The schema table of \<open>resourceAwsEc2TransitGatewayRouteTable\<close> (lines 25 to 45). The
  validation function of \<open>transit_gateway_id\<close> runs in the framework before any
  handler and is not part of the table here.
\<close>

definition resourceAwsEc2TransitGatewayRouteTable_Schema :: "string \<rightharpoonup> Schema" where
  "resourceAwsEc2TransitGatewayRouteTable_Schema =
     [''arn'' \<mapsto> \<lparr>Type = TypeString, Computed = True, Required = False, ForceNew = False\<rparr>,
      ''default_association_route_table'' \<mapsto>
         \<lparr>Type = TypeBool, Computed = True, Required = False, ForceNew = False\<rparr>,
      ''default_propagation_route_table'' \<mapsto>
         \<lparr>Type = TypeBool, Computed = True, Required = False, ForceNew = False\<rparr>,
      ''tags'' \<mapsto> tagsSchema,
      ''transit_gateway_id'' \<mapsto>
         \<lparr>Type = TypeString, Computed = False, Required = True, ForceNew = True\<rparr>]"

text \<open>
  \<open>ResourceData\<close>: the identifier, the attribute values that \<open>Get\<close> reads and
  \<open>Set\<close> writes, and the two snapshots (prior state, planned values) that
  \<open>GetChange\<close> compares. The framework supplies all four on each call.
\<close>

record ResourceData =
  rd_id :: string
  rd_attrs :: "string \<rightharpoonup> attr_value"
  rd_old :: "string \<rightharpoonup> attr_value"
  rd_new :: "string \<rightharpoonup> attr_value"

text \<open>
  Reading a key goes through the schema: the value has the schema's type (the zero value
  when nothing of that type is stored), and a key outside the schema reads as nil.
\<close>

definition read_field :: "(string \<rightharpoonup> attr_value) \<Rightarrow> string \<Rightarrow> attr_value" where
  "read_field m k =
     (case resourceAwsEc2TransitGatewayRouteTable_Schema k of
        None \<Rightarrow> VNil
      | Some s \<Rightarrow>
          (case m k of
             None \<Rightarrow> ZeroValue (Type s)
           | Some v \<Rightarrow> if type_of_value v = Some (Type s) then v else ZeroValue (Type s)))"

definition ResourceData_Get :: "ResourceData \<Rightarrow> string \<Rightarrow> attr_value" where
  "ResourceData_Get d k = read_field (rd_attrs d) k"

definition ResourceData_GetChange :: "ResourceData \<Rightarrow> string \<Rightarrow> attr_value \<times> attr_value" where
  "ResourceData_GetChange d k = (read_field (rd_old d) k, read_field (rd_new d) k)"

definition ResourceData_HasChange :: "ResourceData \<Rightarrow> string \<Rightarrow> bool" where
  "ResourceData_HasChange d k = (case ResourceData_GetChange d k of (o_v, n_v) \<Rightarrow> o_v \<noteq> n_v)"

text \<open>Go's checked type assertions: \<open>None\<close> is the run-time panic.\<close>

fun assert_string :: "attr_value \<Rightarrow> string option" where
  "assert_string (VString s) = Some s"
| "assert_string _ = None"

fun assert_map :: "attr_value \<Rightarrow> (string \<rightharpoonup> string) option" where
  "assert_map (VMap m) = Some m"
| "assert_map _ = None"

section \<open>Collaborators\<close>

text \<open>
  The SDK connection: what the remote creation and deletion calls answer. Each handler
  issues each call at most once, so an answer per request covers every remote behaviour.
\<close>

record EC2 =
  CreateTransitGatewayRouteTable ::
    "CreateTransitGatewayRouteTableInput \<Rightarrow>
       CreateTransitGatewayRouteTableOutput option \<times> go_error option"
  DeleteTransitGatewayRouteTable :: "DeleteTransitGatewayRouteTableInput \<Rightarrow> go_error option"

record AWSClient =
  ec2conn :: EC2
  IgnoreTagsConfig :: "string \<Rightarrow> bool"
  partition :: string
  region :: string
  accountid :: string

text \<open>
  The package-level helpers of the provider that the handler calls and that are not among
  the sources: the describe wrapper, the two poll-until-condition waits, the tag-update
  call, and the predicate that tells the provider-reserved tag keys. They are parameters
  of the model; each receives the connection as in the source.
\<close>

record helpers =
  ec2DescribeTransitGatewayRouteTable ::
    "EC2 \<Rightarrow> string \<Rightarrow> TransitGatewayRouteTable option \<times> go_error option"
  waitForEc2TransitGatewayRouteTableCreation :: "EC2 \<Rightarrow> string \<Rightarrow> go_error option"
  waitForEc2TransitGatewayRouteTableDeletion :: "EC2 \<Rightarrow> string \<Rightarrow> go_error option"
  Ec2UpdateTags :: "EC2 \<Rightarrow> string \<Rightarrow> attr_value \<Rightarrow> attr_value \<Rightarrow> go_error option"
  reservedKey :: "string \<Rightarrow> bool"

subsection \<open>The tag codec\<close>

type_synonym KeyValueTags = "string \<rightharpoonup> string"

text \<open>
  Modelled from the spec: the tag codec (aws/internal/keyvaluetags, not among the sources)
  converts the remote tag structures to the flat tag mapping and removes the
  provider-reserved keys and the keys the user configured to ignore. A later entry of the
  remote list for a key replaces an earlier one.
\<close>

definition Ec2KeyValueTags :: "Tag list \<Rightarrow> KeyValueTags" where
  "Ec2KeyValueTags tags =
     fold (\<lambda>t m. m(aws_StringValue (Key t) \<mapsto> aws_StringValue (Value t))) tags Map.empty"

definition IgnoreAws :: "(string \<Rightarrow> bool) \<Rightarrow> KeyValueTags \<Rightarrow> KeyValueTags" where
  "IgnoreAws reserved tags = (\<lambda>k. if reserved k then None else tags k)"

definition IgnoreConfig :: "(string \<Rightarrow> bool) \<Rightarrow> KeyValueTags \<Rightarrow> KeyValueTags" where
  "IgnoreConfig ignored tags = (\<lambda>k. if ignored k then None else tags k)"

definition KeyValueTags_Map :: "KeyValueTags \<Rightarrow> (string \<rightharpoonup> string)" where
  "KeyValueTags_Map tags = tags"

section \<open>Effects of a handler run\<close>

text \<open>
  A run carries the resource data and the log of what the handler did: every remote call
  and every write to the resource data, in order. Debug logging is not an effect here.
\<close>

datatype event =
    Call_CreateTransitGatewayRouteTable CreateTransitGatewayRouteTableInput
  | Call_waitForCreation string
  | Call_Describe string
  | Call_DeleteTransitGatewayRouteTable DeleteTransitGatewayRouteTableInput
  | Call_waitForDeletion string
  | Call_Ec2UpdateTags string attr_value attr_value
  | Write_SetId string
  | Write_Set string attr_value

fun is_write :: "event \<Rightarrow> bool" where
  "is_write (Write_SetId v) = True"
| "is_write (Write_Set k v) = True"
| "is_write _ = False"

record run =
  rd :: ResourceData
  log :: "event list"

datatype outcome = Returned "go_error option" | Panicked

definition emit :: "event \<Rightarrow> run \<Rightarrow> run" where
  "emit e r = r\<lparr>log := log r @ [e]\<rparr>"

definition ResourceData_Id :: "run \<Rightarrow> string" where
  "ResourceData_Id r = rd_id (rd r)"

definition ResourceData_SetId :: "string \<Rightarrow> run \<Rightarrow> run" where
  "ResourceData_SetId v r = emit (Write_SetId v) (r\<lparr>rd := (rd r)\<lparr>rd_id := v\<rparr>\<rparr>)"

text \<open>
  \<open>Set\<close> stores a value whose type is the schema's type of the key; on an unknown key
  or a value of another type it stores nothing and returns an error. The wording of the
  framework's error is outside the sources; the model keeps the key.
\<close>

definition ResourceData_Set :: "string \<Rightarrow> attr_value \<Rightarrow> run \<Rightarrow> go_error option \<times> run" where
  "ResourceData_Set k v r =
     (let r1 = emit (Write_Set k v) r in
      case resourceAwsEc2TransitGatewayRouteTable_Schema k of
        None \<Rightarrow> (Some (errorString (k @ '': invalid key'')), r1)
      | Some s \<Rightarrow>
          if type_of_value v = Some (Type s)
          then (None, r1\<lparr>rd := (rd r1)\<lparr>rd_attrs := (rd_attrs (rd r1))(k \<mapsto> v)\<rparr>\<rparr>)
          else (Some (errorString (k @ '': invalid value'')), r1))"

section \<open>The four lifecycle handlers\<close>

definition resourceAwsEc2TransitGatewayRouteTableRead ::
    "helpers \<Rightarrow> AWSClient \<Rightarrow> run \<Rightarrow> outcome \<times> run" where
  "resourceAwsEc2TransitGatewayRouteTableRead h meta r0 =
     (let conn = ec2conn meta;
          ignoreTagsConfig = IgnoreTagsConfig meta;
          r1 = emit (Call_Describe (ResourceData_Id r0)) r0
      in case ec2DescribeTransitGatewayRouteTable h conn (ResourceData_Id r0) of
        (transitGatewayRouteTable, err) \<Rightarrow>
          if isAWSErr err ''InvalidRouteTableID.NotFound'' []
          then (Returned None, ResourceData_SetId [] r1)
          else (case err of
            Some e \<Rightarrow>
              (Returned (Some (errorString
                 (''error reading EC2 Transit Gateway Route Table: '' @ Error e))), r1)
          | None \<Rightarrow>
             (case transitGatewayRouteTable of
                None \<Rightarrow> (Returned None, ResourceData_SetId [] r1)
              | Some t \<Rightarrow>
                 if aws_StringValue (State t) = TransitGatewayRouteTableStateDeleting
                    \<or> aws_StringValue (State t) = TransitGatewayRouteTableStateDeleted
                 then (Returned None, ResourceData_SetId [] r1)
                 else
                   (let r2 = snd (ResourceData_Set ''default_association_route_table''
                                   (VBool (aws_BoolValue (DefaultAssociationRouteTable t))) r1);
                        r3 = snd (ResourceData_Set ''default_propagation_route_table''
                                   (VBool (aws_BoolValue (DefaultPropagationRouteTable t))) r2)
                    in case ResourceData_Set ''tags''
                              (VMap (KeyValueTags_Map
                                 (IgnoreConfig ignoreTagsConfig
                                    (IgnoreAws (reservedKey h) (Ec2KeyValueTags (Tags t)))))) r3 of
                      (Some e, r4) \<Rightarrow>
                        (Returned (Some (errorString (''error setting tags: '' @ Error e))), r4)
                    | (None, r4) \<Rightarrow>
                        (let r5 = snd (ResourceData_Set ''transit_gateway_id''
                                        (VString (aws_StringValue (TransitGatewayId t))) r4);
                             arn = ARN_String
                                     \<lparr>Partition = partition meta,
                                      Service = ServiceName,
                                      Region = region meta,
                                      AccountID = accountid meta,
                                      Resource = ''transit-gateway-route-table/'' @ ResourceData_Id r5\<rparr>;
                             r6 = snd (ResourceData_Set ''arn'' (VString arn) r5)
                         in (Returned None, r6))))))"

definition resourceAwsEc2TransitGatewayRouteTableCreate ::
    "helpers \<Rightarrow> AWSClient \<Rightarrow> run \<Rightarrow> outcome \<times> run" where
  "resourceAwsEc2TransitGatewayRouteTableCreate h meta r0 =
     (let conn = ec2conn meta in
      case assert_string (ResourceData_Get (rd r0) ''transit_gateway_id'') of
        None \<Rightarrow> (Panicked, r0)
      | Some tgw \<Rightarrow>
         (case assert_map (ResourceData_Get (rd r0) ''tags'') of
            None \<Rightarrow> (Panicked, r0)
          | Some tags \<Rightarrow>
             (let input = \<lparr>CreateInput_TransitGatewayId = aws_String tgw,
                           CreateInput_TagSpecifications =
                             ec2TagSpecificationsFromMap tags ResourceTypeTransitGatewayRouteTable\<rparr>;
                  r1 = emit (Call_CreateTransitGatewayRouteTable input) r0
              in case CreateTransitGatewayRouteTable conn input of
                (output, Some e) \<Rightarrow>
                  (Returned (Some (errorString
                     (''error creating EC2 Transit Gateway Route Table: '' @ Error e))), r1)
              | (output, None) \<Rightarrow>
                 (case output of
                    None \<Rightarrow> (Panicked, r1)
                  | Some out \<Rightarrow>
                     (case Output_TransitGatewayRouteTable out of
                        None \<Rightarrow> (Panicked, r1)
                      | Some t \<Rightarrow>
                         (let r2 = ResourceData_SetId
                                     (aws_StringValue (TransitGatewayRouteTableId t)) r1;
                              r3 = emit (Call_waitForCreation (ResourceData_Id r2)) r2
                          in case waitForEc2TransitGatewayRouteTableCreation h conn
                                    (ResourceData_Id r2) of
                            Some e \<Rightarrow>
                              (Returned (Some (errorString
                                 (''error waiting for EC2 Transit Gateway Route Table ('' @
                                  ResourceData_Id r3 @ '') availability: '' @ Error e))), r3)
                          | None \<Rightarrow>
                              resourceAwsEc2TransitGatewayRouteTableRead h meta r3))))))"

definition resourceAwsEc2TransitGatewayRouteTableUpdate ::
    "helpers \<Rightarrow> AWSClient \<Rightarrow> run \<Rightarrow> outcome \<times> run" where
  "resourceAwsEc2TransitGatewayRouteTableUpdate h meta r0 =
     (let conn = ec2conn meta in
      if ResourceData_HasChange (rd r0) ''tags''
      then (case ResourceData_GetChange (rd r0) ''tags'' of
        (o_v, n_v) \<Rightarrow>
          (let r1 = emit (Call_Ec2UpdateTags (ResourceData_Id r0) o_v n_v) r0
           in case Ec2UpdateTags h conn (ResourceData_Id r0) o_v n_v of
             Some e \<Rightarrow>
               (Returned (Some (errorString
                  (''error updating EC2 Transit Gateway Route Table ('' @
                   ResourceData_Id r1 @ '') tags: '' @ Error e))), r1)
           | None \<Rightarrow> (Returned None, r1)))
      else (Returned None, r0))"

definition resourceAwsEc2TransitGatewayRouteTableDelete ::
    "helpers \<Rightarrow> AWSClient \<Rightarrow> run \<Rightarrow> outcome \<times> run" where
  "resourceAwsEc2TransitGatewayRouteTableDelete h meta r0 =
     (let conn = ec2conn meta;
          input = \<lparr>DeleteInput_TransitGatewayRouteTableId = aws_String (ResourceData_Id r0)\<rparr>;
          r1 = emit (Call_DeleteTransitGatewayRouteTable input) r0;
          err = DeleteTransitGatewayRouteTable conn input
      in if isAWSErr err ''InvalidRouteTableID.NotFound'' []
         then (Returned None, r1)
         else (case err of
           Some e \<Rightarrow>
             (Returned (Some (errorString
                (''error deleting EC2 Transit Gateway Route Table: '' @ Error e))), r1)
         | None \<Rightarrow>
            (let r2 = emit (Call_waitForDeletion (ResourceData_Id r1)) r1
             in case waitForEc2TransitGatewayRouteTableDeletion h conn (ResourceData_Id r1) of
               Some e \<Rightarrow>
                 (Returned (Some (errorString
                    (''error waiting for EC2 Transit Gateway Route Table ('' @
                     ResourceData_Id r2 @ '') deletion: '' @ Error e))), r2)
             | None \<Rightarrow> (Returned None, r2))))"

section \<open>Sample collaborators and runs\<close>

definition sample_table :: TransitGatewayRouteTable where
  "sample_table =
     \<lparr>DefaultAssociationRouteTable = Some False,
      DefaultPropagationRouteTable = Some False,
      State = Some ''available'',
      Tags = [\<lparr>Key = Some ''env'', Value = Some ''prod''\<rparr>,
              \<lparr>Key = Some ''aws:owner'', Value = Some ''ops''\<rparr>,
              \<lparr>Key = Some ''scratch'', Value = Some ''1''\<rparr>],
      TransitGatewayId = Some ''tgw-123'',
      TransitGatewayRouteTableId = Some ''tgw-rtb-abc''\<rparr>"

definition sample_not_found :: go_error where
  "sample_not_found =
     awserr_Error ''InvalidRouteTableID.NotFound'' ''no such route table''
       ''InvalidRouteTableID.NotFound: no such route table''"

definition sample_failure :: go_error where
  "sample_failure =
     awserr_Error ''RequestLimitExceeded'' ''slow down'' ''RequestLimitExceeded: slow down''"

definition sample_timeout :: go_error where
  "sample_timeout = errorString ''timeout while waiting for state''"

definition sample_conn :: EC2 where
  "sample_conn =
     \<lparr>CreateTransitGatewayRouteTable =
        (\<lambda>input. (Some \<lparr>Output_TransitGatewayRouteTable = Some sample_table\<rparr>, None)),
      DeleteTransitGatewayRouteTable = (\<lambda>input. None)\<rparr>"

definition sample_helpers :: helpers where
  "sample_helpers =
     \<lparr>ec2DescribeTransitGatewayRouteTable = (\<lambda>conn i. (Some sample_table, None)),
      waitForEc2TransitGatewayRouteTableCreation = (\<lambda>conn i. None),
      waitForEc2TransitGatewayRouteTableDeletion = (\<lambda>conn i. None),
      Ec2UpdateTags = (\<lambda>conn i o_v n_v. None),
      reservedKey = (\<lambda>k. take 4 k = ''aws:'')\<rparr>"

definition sample_meta :: AWSClient where
  "sample_meta =
     \<lparr>ec2conn = sample_conn,
      IgnoreTagsConfig = (\<lambda>k. k = ''scratch''),
      partition = ''aws'',
      region = ''us-west-2'',
      accountid = ''123456789012''\<rparr>"

definition sample_config :: "string \<rightharpoonup> attr_value" where
  "sample_config =
     [''transit_gateway_id'' \<mapsto> VString ''tgw-123'',
      ''tags'' \<mapsto> VMap [''env'' \<mapsto> ''prod'']]"

definition sample_new :: run where
  "sample_new =
     \<lparr>rd = \<lparr>rd_id = [], rd_attrs = sample_config, rd_old = Map.empty, rd_new = sample_config\<rparr>,
      log = []\<rparr>"

definition sample_existing :: run where
  "sample_existing =
     \<lparr>rd = \<lparr>rd_id = ''tgw-rtb-abc'', rd_attrs = sample_config, rd_old = sample_config,
             rd_new = sample_config\<rparr>,
      log = []\<rparr>"

definition sample_retagged :: run where
  "sample_retagged =
     \<lparr>rd = \<lparr>rd_id = ''tgw-rtb-abc'', rd_attrs = sample_config, rd_old = sample_config,
             rd_new = sample_config(''tags'' \<mapsto> VMap [''env'' \<mapsto> ''test''])\<rparr>,
      log = []\<rparr>"

section \<open>Facts about the framework model\<close>

lemma Schema_arn:
  "resourceAwsEc2TransitGatewayRouteTable_Schema ''arn'' =
     Some \<lparr>Type = TypeString, Computed = True, Required = False, ForceNew = False\<rparr>"
  by (simp add: resourceAwsEc2TransitGatewayRouteTable_Schema_def)

lemma Schema_default_association:
  "resourceAwsEc2TransitGatewayRouteTable_Schema ''default_association_route_table'' =
     Some \<lparr>Type = TypeBool, Computed = True, Required = False, ForceNew = False\<rparr>"
  by (simp add: resourceAwsEc2TransitGatewayRouteTable_Schema_def)

lemma Schema_default_propagation:
  "resourceAwsEc2TransitGatewayRouteTable_Schema ''default_propagation_route_table'' =
     Some \<lparr>Type = TypeBool, Computed = True, Required = False, ForceNew = False\<rparr>"
  by (simp add: resourceAwsEc2TransitGatewayRouteTable_Schema_def)

lemma Schema_tags:
  "resourceAwsEc2TransitGatewayRouteTable_Schema ''tags'' = Some tagsSchema"
  by (simp add: resourceAwsEc2TransitGatewayRouteTable_Schema_def)

lemma Schema_transit_gateway_id:
  "resourceAwsEc2TransitGatewayRouteTable_Schema ''transit_gateway_id'' =
     Some \<lparr>Type = TypeString, Computed = False, Required = True, ForceNew = True\<rparr>"
  by (simp add: resourceAwsEc2TransitGatewayRouteTable_Schema_def)

lemma Set_stores:
  assumes "resourceAwsEc2TransitGatewayRouteTable_Schema k = Some s"
    and "type_of_value v = Some (Type s)"
  shows "ResourceData_Set k v r =
           (None, \<lparr>rd = (rd r)\<lparr>rd_attrs := (rd_attrs (rd r))(k \<mapsto> v)\<rparr>,
                   log = log r @ [Write_Set k v]\<rparr>)"
  using assms by (simp add: ResourceData_Set_def emit_def Let_def)

lemma Set_keeps_id: "rd_id (rd (snd (ResourceData_Set k v r))) = rd_id (rd r)"
  by (simp add: ResourceData_Set_def emit_def Let_def split: option.splits)

lemma Get_transit_gateway_id_string:
  "\<exists>s. ResourceData_Get d ''transit_gateway_id'' = VString s"
proof (cases "rd_attrs d ''transit_gateway_id''")
  case None
  then show ?thesis
    by (simp add: ResourceData_Get_def read_field_def Schema_transit_gateway_id)
next
  case (Some v)
  then show ?thesis
    by (cases v) (simp_all add: ResourceData_Get_def read_field_def Schema_transit_gateway_id)
qed

lemma Get_tags_map: "\<exists>m. ResourceData_Get d ''tags'' = VMap m"
proof (cases "rd_attrs d ''tags''")
  case None
  then show ?thesis
    by (simp add: ResourceData_Get_def read_field_def Schema_tags tagsSchema_def)
next
  case (Some v)
  then show ?thesis
    by (cases v) (simp_all add: ResourceData_Get_def read_field_def Schema_tags tagsSchema_def)
qed

lemma Read_absent:
  assumes "ec2DescribeTransitGatewayRouteTable h (ec2conn meta) (rd_id (rd r)) = (t, err)"
    and "isAWSErr err ''InvalidRouteTableID.NotFound'' [] \<or> (err = None \<and> t = None)
         \<or> (err = None \<and> (\<exists>d. t = Some d \<and>
               (aws_StringValue (State d) = ''deleting'' \<or> aws_StringValue (State d) = ''deleted'')))"
  shows "resourceAwsEc2TransitGatewayRouteTableRead h meta r =
           (Returned None, ResourceData_SetId [] (emit (Call_Describe (rd_id (rd r))) r))"
  using assms
  by (auto simp: resourceAwsEc2TransitGatewayRouteTableRead_def Let_def ResourceData_Id_def
        isAWSErr_def TransitGatewayRouteTableStateDeleting_def
        TransitGatewayRouteTableStateDeleted_def)

lemma Read_error:
  assumes "ec2DescribeTransitGatewayRouteTable h (ec2conn meta) (rd_id (rd r)) = (t, Some e)"
    and "\<not> isAWSErr (Some e) ''InvalidRouteTableID.NotFound'' []"
  shows "resourceAwsEc2TransitGatewayRouteTableRead h meta r =
           (Returned (Some (errorString
              (''error reading EC2 Transit Gateway Route Table: '' @ Error e))),
            emit (Call_Describe (rd_id (rd r))) r)"
  using assms
  by (simp add: resourceAwsEc2TransitGatewayRouteTableRead_def Let_def ResourceData_Id_def)

lemma Read_live:
  assumes D: "ec2DescribeTransitGatewayRouteTable h (ec2conn meta) (rd_id (rd r)) = (Some t, None)"
    and L1: "aws_StringValue (State t) \<noteq> ''deleting''"
    and L2: "aws_StringValue (State t) \<noteq> ''deleted''"
  shows "resourceAwsEc2TransitGatewayRouteTableRead h meta r =
     (Returned None,
      \<lparr>rd = (rd r)\<lparr>rd_attrs := (rd_attrs (rd r))
          (''default_association_route_table'' \<mapsto>
              VBool (aws_BoolValue (DefaultAssociationRouteTable t)),
           ''default_propagation_route_table'' \<mapsto>
              VBool (aws_BoolValue (DefaultPropagationRouteTable t)),
           ''tags'' \<mapsto> VMap (KeyValueTags_Map (IgnoreConfig (IgnoreTagsConfig meta)
                               (IgnoreAws (reservedKey h) (Ec2KeyValueTags (Tags t))))),
           ''transit_gateway_id'' \<mapsto> VString (aws_StringValue (TransitGatewayId t)),
           ''arn'' \<mapsto> VString (ARN_String
                       \<lparr>Partition = partition meta, Service = ServiceName,
                        Region = region meta, AccountID = accountid meta,
                        Resource = ''transit-gateway-route-table/'' @ rd_id (rd r)\<rparr>))\<rparr>,
       log = log r @
         [Call_Describe (rd_id (rd r)),
          Write_Set ''default_association_route_table''
            (VBool (aws_BoolValue (DefaultAssociationRouteTable t))),
          Write_Set ''default_propagation_route_table''
            (VBool (aws_BoolValue (DefaultPropagationRouteTable t))),
          Write_Set ''tags'' (VMap (KeyValueTags_Map (IgnoreConfig (IgnoreTagsConfig meta)
                               (IgnoreAws (reservedKey h) (Ec2KeyValueTags (Tags t)))))),
          Write_Set ''transit_gateway_id'' (VString (aws_StringValue (TransitGatewayId t))),
          Write_Set ''arn'' (VString (ARN_String
                       \<lparr>Partition = partition meta, Service = ServiceName,
                        Region = region meta, AccountID = accountid meta,
                        Resource = ''transit-gateway-route-table/'' @ rd_id (rd r)\<rparr>))]\<rparr>)"
  using D L1 L2
  by (simp add: resourceAwsEc2TransitGatewayRouteTableRead_def Let_def ResourceData_Id_def
        isAWSErr_def TransitGatewayRouteTableStateDeleting_def
        TransitGatewayRouteTableStateDeleted_def
        Set_stores [OF Schema_default_association] Set_stores [OF Schema_default_propagation]
        Set_stores [OF Schema_tags] Set_stores [OF Schema_transit_gateway_id]
        Set_stores [OF Schema_arn] tagsSchema_def emit_def)

section \<open>Read\<close>

text \<open>
  Claim C1. Read's outcome is decided by the describe result. When the describe call fails
  with the not-found code, or succeeds with a nil descriptor, or succeeds with a descriptor
  in state deleting or deleted, Read returns success and the identifier is empty afterwards.
  Any other describe error is returned wrapped in the reading context; the resource data is
  then exactly as before and no write happened.
\<close>

theorem Read_decided_by_describe:
  assumes D: "ec2DescribeTransitGatewayRouteTable h (ec2conn meta) (rd_id (rd r)) = (t, err)"
  shows
   "((isAWSErr err ''InvalidRouteTableID.NotFound'' []
       \<or> (err = None \<and> t = None)
       \<or> (err = None \<and> (\<exists>d. t = Some d \<and>
             (aws_StringValue (State d) = ''deleting'' \<or> aws_StringValue (State d) = ''deleted''))))
      \<longrightarrow> fst (resourceAwsEc2TransitGatewayRouteTableRead h meta r) = Returned None
          \<and> rd_id (rd (snd (resourceAwsEc2TransitGatewayRouteTableRead h meta r))) = [])
    \<and> (\<forall>e. err = Some e \<and> \<not> isAWSErr err ''InvalidRouteTableID.NotFound'' []
      \<longrightarrow> fst (resourceAwsEc2TransitGatewayRouteTableRead h meta r) =
            Returned (Some (errorString
              (''error reading EC2 Transit Gateway Route Table: '' @ Error e)))
          \<and> rd (snd (resourceAwsEc2TransitGatewayRouteTableRead h meta r)) = rd r
          \<and> filter is_write (log (snd (resourceAwsEc2TransitGatewayRouteTableRead h meta r))) =
              filter is_write (log r))"
proof (intro conjI impI allI)
  assume A: "isAWSErr err ''InvalidRouteTableID.NotFound'' []
       \<or> (err = None \<and> t = None)
       \<or> (err = None \<and> (\<exists>d. t = Some d \<and>
             (aws_StringValue (State d) = ''deleting'' \<or> aws_StringValue (State d) = ''deleted'')))"
  have R: "resourceAwsEc2TransitGatewayRouteTableRead h meta r =
           (Returned None, ResourceData_SetId [] (emit (Call_Describe (rd_id (rd r))) r))"
    using Read_absent [OF D] A by simp
  show "fst (resourceAwsEc2TransitGatewayRouteTableRead h meta r) = Returned None"
    by (simp add: R)
  show "rd_id (rd (snd (resourceAwsEc2TransitGatewayRouteTableRead h meta r))) = []"
    by (simp add: R ResourceData_SetId_def emit_def)
next
  fix e
  assume A: "err = Some e \<and> \<not> isAWSErr err ''InvalidRouteTableID.NotFound'' []"
  have R: "resourceAwsEc2TransitGatewayRouteTableRead h meta r =
           (Returned (Some (errorString
              (''error reading EC2 Transit Gateway Route Table: '' @ Error e))),
            emit (Call_Describe (rd_id (rd r))) r)"
  proof -
    from A have E: "err = Some e"
      and NF: "\<not> isAWSErr (Some e) ''InvalidRouteTableID.NotFound'' []"
      by blast+
    from D E have "ec2DescribeTransitGatewayRouteTable h (ec2conn meta) (rd_id (rd r)) = (t, Some e)"
      by simp
    then show ?thesis using NF by (rule Read_error)
  qed
  show "fst (resourceAwsEc2TransitGatewayRouteTableRead h meta r) =
            Returned (Some (errorString
              (''error reading EC2 Transit Gateway Route Table: '' @ Error e)))"
    by (simp add: R)
  show "rd (snd (resourceAwsEc2TransitGatewayRouteTableRead h meta r)) = rd r"
    by (simp add: R emit_def)
  show "filter is_write (log (snd (resourceAwsEc2TransitGatewayRouteTableRead h meta r))) =
              filter is_write (log r)"
    by (simp add: R emit_def)
qed

theorem Read_decided_by_describe_witness:
  "isAWSErr (Some sample_not_found) ''InvalidRouteTableID.NotFound'' []
   \<and> fst (resourceAwsEc2TransitGatewayRouteTableRead
        (sample_helpers\<lparr>ec2DescribeTransitGatewayRouteTable :=
           (\<lambda>conn i. (None, Some sample_not_found))\<rparr>) sample_meta sample_existing) = Returned None
   \<and> rd_id (rd (snd (resourceAwsEc2TransitGatewayRouteTableRead
        (sample_helpers\<lparr>ec2DescribeTransitGatewayRouteTable :=
           (\<lambda>conn i. (None, Some sample_not_found))\<rparr>) sample_meta sample_existing))) = []
   \<and> fst (resourceAwsEc2TransitGatewayRouteTableRead
        (sample_helpers\<lparr>ec2DescribeTransitGatewayRouteTable :=
           (\<lambda>conn i. (None, None))\<rparr>) sample_meta sample_existing) = Returned None
   \<and> rd_id (rd (snd (resourceAwsEc2TransitGatewayRouteTableRead
        (sample_helpers\<lparr>ec2DescribeTransitGatewayRouteTable :=
           (\<lambda>conn i. (None, None))\<rparr>) sample_meta sample_existing))) = []
   \<and> fst (resourceAwsEc2TransitGatewayRouteTableRead
        (sample_helpers\<lparr>ec2DescribeTransitGatewayRouteTable :=
           (\<lambda>conn i. (Some (sample_table\<lparr>State := Some ''deleting''\<rparr>), None))\<rparr>)
        sample_meta sample_existing) = Returned None
   \<and> rd_id (rd (snd (resourceAwsEc2TransitGatewayRouteTableRead
        (sample_helpers\<lparr>ec2DescribeTransitGatewayRouteTable :=
           (\<lambda>conn i. (Some (sample_table\<lparr>State := Some ''deleting''\<rparr>), None))\<rparr>)
        sample_meta sample_existing))) = []
   \<and> \<not> isAWSErr (Some sample_failure) ''InvalidRouteTableID.NotFound'' []
   \<and> fst (resourceAwsEc2TransitGatewayRouteTableRead
        (sample_helpers\<lparr>ec2DescribeTransitGatewayRouteTable :=
           (\<lambda>conn i. (None, Some sample_failure))\<rparr>) sample_meta sample_existing) =
       Returned (Some (errorString
         ''error reading EC2 Transit Gateway Route Table: RequestLimitExceeded: slow down''))
   \<and> rd_id (rd (snd (resourceAwsEc2TransitGatewayRouteTableRead
        (sample_helpers\<lparr>ec2DescribeTransitGatewayRouteTable :=
           (\<lambda>conn i. (None, Some sample_failure))\<rparr>) sample_meta sample_existing))) =
       ''tgw-rtb-abc''"
proof -
  have N: "isAWSErr (Some sample_not_found) ''InvalidRouteTableID.NotFound'' []"
    by (simp add: isAWSErr_def sample_not_found_def)
  have F: "\<not> isAWSErr (Some sample_failure) ''InvalidRouteTableID.NotFound'' []"
    by (simp add: isAWSErr_def sample_failure_def)
  have D1: "ec2DescribeTransitGatewayRouteTable
        (sample_helpers\<lparr>ec2DescribeTransitGatewayRouteTable :=
           (\<lambda>conn i. (None, Some sample_not_found))\<rparr>) (ec2conn sample_meta)
        (rd_id (rd sample_existing)) = (None, Some sample_not_found)"
    by simp
  have D2: "ec2DescribeTransitGatewayRouteTable
        (sample_helpers\<lparr>ec2DescribeTransitGatewayRouteTable :=
           (\<lambda>conn i. (None, Some sample_failure))\<rparr>) (ec2conn sample_meta)
        (rd_id (rd sample_existing)) = (None, Some sample_failure)"
    by simp
  have D3: "ec2DescribeTransitGatewayRouteTable
        (sample_helpers\<lparr>ec2DescribeTransitGatewayRouteTable :=
           (\<lambda>conn i. (None, None))\<rparr>) (ec2conn sample_meta)
        (rd_id (rd sample_existing)) = (None, None)"
    by simp
  have D4: "ec2DescribeTransitGatewayRouteTable
        (sample_helpers\<lparr>ec2DescribeTransitGatewayRouteTable :=
           (\<lambda>conn i. (Some (sample_table\<lparr>State := Some ''deleting''\<rparr>), None))\<rparr>)
        (ec2conn sample_meta) (rd_id (rd sample_existing)) =
        (Some (sample_table\<lparr>State := Some ''deleting''\<rparr>), None)"
    by simp
  have S: "aws_StringValue (State (sample_table\<lparr>State := Some ''deleting''\<rparr>)) = ''deleting''"
    by (simp add: aws_StringValue_def)
  have I: "rd_id (rd sample_existing) = ''tgw-rtb-abc''"
    by (simp add: sample_existing_def)
  have E: "Error sample_failure = ''RequestLimitExceeded: slow down''"
    by (simp add: sample_failure_def)
  show ?thesis
    using Read_decided_by_describe [OF D1] Read_decided_by_describe [OF D2]
      Read_decided_by_describe [OF D3] Read_decided_by_describe [OF D4] N F I E S
    by simp
qed

section \<open>Delete\<close>

lemma Delete_not_found:
  assumes "isAWSErr (DeleteTransitGatewayRouteTable (ec2conn meta)
             \<lparr>DeleteInput_TransitGatewayRouteTableId = Some (rd_id (rd r))\<rparr>)
             ''InvalidRouteTableID.NotFound'' []"
  shows "resourceAwsEc2TransitGatewayRouteTableDelete h meta r =
           (Returned None,
            emit (Call_DeleteTransitGatewayRouteTable
                    \<lparr>DeleteInput_TransitGatewayRouteTableId = Some (rd_id (rd r))\<rparr>) r)"
  using assms
  by (simp add: resourceAwsEc2TransitGatewayRouteTableDelete_def Let_def ResourceData_Id_def
        aws_String_def)

lemma Delete_call_error:
  assumes "DeleteTransitGatewayRouteTable (ec2conn meta)
             \<lparr>DeleteInput_TransitGatewayRouteTableId = Some (rd_id (rd r))\<rparr> = Some e"
    and "\<not> isAWSErr (Some e) ''InvalidRouteTableID.NotFound'' []"
  shows "resourceAwsEc2TransitGatewayRouteTableDelete h meta r =
           (Returned (Some (errorString
              (''error deleting EC2 Transit Gateway Route Table: '' @ Error e))),
            emit (Call_DeleteTransitGatewayRouteTable
                    \<lparr>DeleteInput_TransitGatewayRouteTableId = Some (rd_id (rd r))\<rparr>) r)"
  using assms
  by (simp add: resourceAwsEc2TransitGatewayRouteTableDelete_def Let_def ResourceData_Id_def
        aws_String_def)

lemma isAWSErr_None: "\<not> isAWSErr None code message"
  by (simp add: isAWSErr_def)

lemma Delete_called:
  assumes "DeleteTransitGatewayRouteTable (ec2conn meta)
             \<lparr>DeleteInput_TransitGatewayRouteTableId = Some (rd_id (rd r))\<rparr> = None"
  shows "resourceAwsEc2TransitGatewayRouteTableDelete h meta r =
           ((case waitForEc2TransitGatewayRouteTableDeletion h (ec2conn meta) (rd_id (rd r)) of
               None \<Rightarrow> Returned None
             | Some e \<Rightarrow> Returned (Some (errorString
                 (''error waiting for EC2 Transit Gateway Route Table ('' @ rd_id (rd r) @
                  '') deletion: '' @ Error e)))),
            r\<lparr>log := log r @
               [Call_DeleteTransitGatewayRouteTable
                  \<lparr>DeleteInput_TransitGatewayRouteTableId = Some (rd_id (rd r))\<rparr>,
                Call_waitForDeletion (rd_id (rd r))]\<rparr>)"
  using assms
  by (simp add: resourceAwsEc2TransitGatewayRouteTableDelete_def Let_def ResourceData_Id_def
        aws_String_def isAWSErr_None emit_def split: option.splits)

text \<open>
  Claim C2. Delete is idempotent: when the remote deletion call fails with the not-found
  code, as it does for an already absent route table, Delete returns success; it leaves
  the resource data as it was.
\<close>

theorem Delete_not_found_is_success:
  assumes "isAWSErr (DeleteTransitGatewayRouteTable (ec2conn meta)
             \<lparr>DeleteInput_TransitGatewayRouteTableId = Some (rd_id (rd r))\<rparr>)
             ''InvalidRouteTableID.NotFound'' []"
  shows "fst (resourceAwsEc2TransitGatewayRouteTableDelete h meta r) = Returned None
         \<and> rd (snd (resourceAwsEc2TransitGatewayRouteTableDelete h meta r)) = rd r"
  by (simp add: Delete_not_found [OF assms] emit_def)

theorem Delete_not_found_is_success_witness:
  "isAWSErr (DeleteTransitGatewayRouteTable
        (ec2conn (sample_meta\<lparr>ec2conn :=
           sample_conn\<lparr>DeleteTransitGatewayRouteTable := (\<lambda>input. Some sample_not_found)\<rparr>\<rparr>))
        \<lparr>DeleteInput_TransitGatewayRouteTableId = Some (rd_id (rd sample_existing))\<rparr>)
      ''InvalidRouteTableID.NotFound'' []
   \<and> fst (resourceAwsEc2TransitGatewayRouteTableDelete sample_helpers
        (sample_meta\<lparr>ec2conn :=
           sample_conn\<lparr>DeleteTransitGatewayRouteTable := (\<lambda>input. Some sample_not_found)\<rparr>\<rparr>)
        sample_existing) = Returned None"
proof -
  have N: "isAWSErr (DeleteTransitGatewayRouteTable
        (ec2conn (sample_meta\<lparr>ec2conn :=
           sample_conn\<lparr>DeleteTransitGatewayRouteTable := (\<lambda>input. Some sample_not_found)\<rparr>\<rparr>))
        \<lparr>DeleteInput_TransitGatewayRouteTableId = Some (rd_id (rd sample_existing))\<rparr>)
      ''InvalidRouteTableID.NotFound'' []"
    by (simp add: isAWSErr_def sample_not_found_def)
  show ?thesis
    using N Delete_not_found_is_success [OF N, of sample_helpers] by simp
qed

text \<open>
  Claim C9. Delete returns an error exactly when the remote deletion call fails with an
  error other than not-found, or the deletion call succeeds and the wait for absence
  fails. The error is the cause wrapped in the deleting context, respectively the waiting
  context. Whenever the deletion call succeeds, the wait is issued right after it, before
  Delete returns.
\<close>

theorem Delete_error_iff:
  assumes DE: "DeleteTransitGatewayRouteTable (ec2conn meta)
             \<lparr>DeleteInput_TransitGatewayRouteTableId = Some (rd_id (rd r))\<rparr> = derr"
    and WE: "waitForEc2TransitGatewayRouteTableDeletion h (ec2conn meta) (rd_id (rd r)) = werr"
  shows
    "((\<exists>e. fst (resourceAwsEc2TransitGatewayRouteTableDelete h meta r) = Returned (Some e)) =
        ((derr \<noteq> None \<and> \<not> isAWSErr derr ''InvalidRouteTableID.NotFound'' [])
          \<or> (derr = None \<and> werr \<noteq> None)))
     \<and> fst (resourceAwsEc2TransitGatewayRouteTableDelete h meta r) \<noteq> Panicked
     \<and> (\<forall>e. derr = Some e \<and> \<not> isAWSErr derr ''InvalidRouteTableID.NotFound'' [] \<longrightarrow>
           fst (resourceAwsEc2TransitGatewayRouteTableDelete h meta r) =
             Returned (Some (errorString
               (''error deleting EC2 Transit Gateway Route Table: '' @ Error e))))
     \<and> (\<forall>e. derr = None \<and> werr = Some e \<longrightarrow>
           fst (resourceAwsEc2TransitGatewayRouteTableDelete h meta r) =
             Returned (Some (errorString
               (''error waiting for EC2 Transit Gateway Route Table ('' @ rd_id (rd r) @
                '') deletion: '' @ Error e))))
     \<and> (derr = None \<longrightarrow>
           log (snd (resourceAwsEc2TransitGatewayRouteTableDelete h meta r)) =
             log r @ [Call_DeleteTransitGatewayRouteTable
                        \<lparr>DeleteInput_TransitGatewayRouteTableId = Some (rd_id (rd r))\<rparr>,
                      Call_waitForDeletion (rd_id (rd r))])"
proof (cases derr)
  case None
  with DE have D: "DeleteTransitGatewayRouteTable (ec2conn meta)
             \<lparr>DeleteInput_TransitGatewayRouteTableId = Some (rd_id (rd r))\<rparr> = None"
    by simp
  show ?thesis
    using None WE by (cases werr) (simp_all add: Delete_called [OF D])
next
  case (Some e)
  with DE have D: "DeleteTransitGatewayRouteTable (ec2conn meta)
             \<lparr>DeleteInput_TransitGatewayRouteTableId = Some (rd_id (rd r))\<rparr> = Some e"
    by simp
  show ?thesis
  proof (cases "isAWSErr (Some e) ''InvalidRouteTableID.NotFound'' []")
    case True
    then have "isAWSErr (DeleteTransitGatewayRouteTable (ec2conn meta)
             \<lparr>DeleteInput_TransitGatewayRouteTableId = Some (rd_id (rd r))\<rparr>)
             ''InvalidRouteTableID.NotFound'' []"
      using D by simp
    then show ?thesis
      using Some True by (simp add: Delete_not_found)
  next
    case False
    show ?thesis
      using Some False by (simp add: Delete_call_error [OF D False])
  qed
qed

theorem Delete_error_iff_witness:
  "\<not> isAWSErr (Some sample_failure) ''InvalidRouteTableID.NotFound'' []
   \<and> fst (resourceAwsEc2TransitGatewayRouteTableDelete sample_helpers
        (sample_meta\<lparr>ec2conn :=
           sample_conn\<lparr>DeleteTransitGatewayRouteTable := (\<lambda>input. Some sample_failure)\<rparr>\<rparr>)
        sample_existing) =
       Returned (Some (errorString
         ''error deleting EC2 Transit Gateway Route Table: RequestLimitExceeded: slow down''))
   \<and> fst (resourceAwsEc2TransitGatewayRouteTableDelete
        (sample_helpers\<lparr>waitForEc2TransitGatewayRouteTableDeletion :=
           (\<lambda>conn i. Some sample_timeout)\<rparr>) sample_meta sample_existing) =
       Returned (Some (errorString
         ''error waiting for EC2 Transit Gateway Route Table (tgw-rtb-abc) deletion: timeout while waiting for state''))
   \<and> log (snd (resourceAwsEc2TransitGatewayRouteTableDelete sample_helpers sample_meta
        sample_existing)) =
       [Call_DeleteTransitGatewayRouteTable
          \<lparr>DeleteInput_TransitGatewayRouteTableId = Some ''tgw-rtb-abc''\<rparr>,
        Call_waitForDeletion ''tgw-rtb-abc'']"
proof -
  have F: "\<not> isAWSErr (Some sample_failure) ''InvalidRouteTableID.NotFound'' []"
    by (simp add: isAWSErr_def sample_failure_def)
  have E: "Error sample_failure = ''RequestLimitExceeded: slow down''"
    by (simp add: sample_failure_def)
  have T: "Error sample_timeout = ''timeout while waiting for state''"
    by (simp add: sample_timeout_def)
  have I: "rd_id (rd sample_existing) = ''tgw-rtb-abc''" "log sample_existing = []"
    by (simp_all add: sample_existing_def)
  have C: "ec2conn sample_meta = sample_conn"
    by (simp add: sample_meta_def)
  have D: "DeleteTransitGatewayRouteTable sample_conn = (\<lambda>input. None)"
    by (simp add: sample_conn_def)
  have W: "waitForEc2TransitGatewayRouteTableDeletion sample_helpers = (\<lambda>conn i. None)"
    by (simp add: sample_helpers_def)
  show ?thesis
    using F
      Delete_error_iff [OF refl refl, of sample_helpers
        "sample_meta\<lparr>ec2conn :=
           sample_conn\<lparr>DeleteTransitGatewayRouteTable := (\<lambda>input. Some sample_failure)\<rparr>\<rparr>"
        sample_existing]
      Delete_error_iff [OF refl refl,
        of "sample_helpers\<lparr>waitForEc2TransitGatewayRouteTableDeletion :=
           (\<lambda>conn i. Some sample_timeout)\<rparr>" sample_meta sample_existing]
      Delete_error_iff [OF refl refl, of sample_helpers sample_meta sample_existing]
    by (simp add: E T I C D W)
qed

section \<open>Update\<close>

text \<open>
  Claim C5. When the tags attribute has no change between the old and the new snapshot,
  Update returns success and the run is exactly as it was: nothing is appended to the log,
  so no remote call was issued.
\<close>

theorem Update_without_tag_change:
  assumes "\<not> ResourceData_HasChange (rd r) ''tags''"
  shows "resourceAwsEc2TransitGatewayRouteTableUpdate h meta r = (Returned None, r)"
  using assms by (simp add: resourceAwsEc2TransitGatewayRouteTableUpdate_def)

theorem Update_without_tag_change_witness:
  "\<not> ResourceData_HasChange (rd sample_existing) ''tags''
   \<and> fst (resourceAwsEc2TransitGatewayRouteTableUpdate sample_helpers sample_meta
        sample_existing) = Returned None
   \<and> log (snd (resourceAwsEc2TransitGatewayRouteTableUpdate sample_helpers sample_meta
        sample_existing)) = []"
proof -
  have N: "\<not> ResourceData_HasChange (rd sample_existing) ''tags''"
    by (simp add: ResourceData_HasChange_def ResourceData_GetChange_def sample_existing_def)
  have L: "log sample_existing = []"
    by (simp add: sample_existing_def)
  show ?thesis
    using N L Update_without_tag_change [OF N, of sample_helpers sample_meta] by simp
qed

text \<open>
  Claim C10. Update never writes to the stored state. Whatever the collaborators answer,
  the resource data after Update (identifier, attribute values, both snapshots) equals the
  resource data before, and Update adds no write event to the log; this covers the run in
  which the tag-update call fails.
\<close>

theorem Update_never_writes:
  "rd (snd (resourceAwsEc2TransitGatewayRouteTableUpdate h meta r)) = rd r
   \<and> filter is_write (log (snd (resourceAwsEc2TransitGatewayRouteTableUpdate h meta r))) =
       filter is_write (log r)"
  by (simp add: resourceAwsEc2TransitGatewayRouteTableUpdate_def Let_def emit_def
        split: prod.splits option.splits)

theorem Update_never_writes_witness:
  "ResourceData_HasChange (rd sample_retagged) ''tags''
   \<and> fst (resourceAwsEc2TransitGatewayRouteTableUpdate
        (sample_helpers\<lparr>Ec2UpdateTags := (\<lambda>conn i o_v n_v. Some sample_failure)\<rparr>)
        sample_meta sample_retagged) =
       Returned (Some (errorString
         ''error updating EC2 Transit Gateway Route Table (tgw-rtb-abc) tags: RequestLimitExceeded: slow down''))
   \<and> rd (snd (resourceAwsEc2TransitGatewayRouteTableUpdate
        (sample_helpers\<lparr>Ec2UpdateTags := (\<lambda>conn i o_v n_v. Some sample_failure)\<rparr>)
        sample_meta sample_retagged)) = rd sample_retagged"
proof -
  have M: "[''env'' \<mapsto> ''prod''] \<noteq> [''env'' \<mapsto> ''test'']"
  proof
    assume "[''env'' \<mapsto> ''prod''] = [''env'' \<mapsto> ''test'']"
    then have "[''env'' \<mapsto> ''prod''] ''env'' = [''env'' \<mapsto> ''test''] ''env''"
      by (rule arg_cong)
    then show False by simp
  qed
  have H: "ResourceData_HasChange (rd sample_retagged) ''tags''"
    using M
    by (simp add: ResourceData_HasChange_def ResourceData_GetChange_def read_field_def
          Schema_tags tagsSchema_def sample_retagged_def sample_config_def)
  have I: "rd_id (rd sample_retagged) = ''tgw-rtb-abc''"
    by (simp add: sample_retagged_def)
  have E: "Error sample_failure = ''RequestLimitExceeded: slow down''"
    by (simp add: sample_failure_def)
  have F: "fst (resourceAwsEc2TransitGatewayRouteTableUpdate
        (sample_helpers\<lparr>Ec2UpdateTags := (\<lambda>conn i o_v n_v. Some sample_failure)\<rparr>)
        sample_meta sample_retagged) =
       Returned (Some (errorString
         ''error updating EC2 Transit Gateway Route Table (tgw-rtb-abc) tags: RequestLimitExceeded: slow down''))"
    using H
    by (simp add: resourceAwsEc2TransitGatewayRouteTableUpdate_def Let_def emit_def
          ResourceData_Id_def I E split: prod.splits)
  show ?thesis
    using H F Update_never_writes
      [of "sample_helpers\<lparr>Ec2UpdateTags := (\<lambda>conn i o_v n_v. Some sample_failure)\<rparr>"
          sample_meta sample_retagged]
    by simp
qed

section \<open>Read of a live descriptor\<close>

lemma filtered_tags:
  "KeyValueTags_Map (IgnoreConfig ignored (IgnoreAws reserved m)) =
     (\<lambda>k. if reserved k \<or> ignored k then None else m k)"
  by (auto simp: KeyValueTags_Map_def IgnoreConfig_def IgnoreAws_def)

text \<open>
  Claim C6. When the describe call succeeds with a descriptor that is neither deleting nor
  deleted, Read returns success and stores: the two boolean flags of the descriptor; the
  descriptor's tags without the provider-reserved keys and without the keys configured to
  be ignored; the descriptor's transit gateway reference; and the locator built from the
  client's partition, the service name, the client's region and account, and the resource
  path of the identifier. The identifier is kept.
\<close>

theorem Read_populates_attributes:
  assumes D: "ec2DescribeTransitGatewayRouteTable h (ec2conn meta) (rd_id (rd r)) = (Some t, None)"
    and L1: "aws_StringValue (State t) \<noteq> ''deleting''"
    and L2: "aws_StringValue (State t) \<noteq> ''deleted''"
  shows
    "fst (resourceAwsEc2TransitGatewayRouteTableRead h meta r) = Returned None
     \<and> rd_id (rd (snd (resourceAwsEc2TransitGatewayRouteTableRead h meta r))) = rd_id (rd r)
     \<and> rd_attrs (rd (snd (resourceAwsEc2TransitGatewayRouteTableRead h meta r)))
          ''default_association_route_table'' =
            Some (VBool (aws_BoolValue (DefaultAssociationRouteTable t)))
     \<and> rd_attrs (rd (snd (resourceAwsEc2TransitGatewayRouteTableRead h meta r)))
          ''default_propagation_route_table'' =
            Some (VBool (aws_BoolValue (DefaultPropagationRouteTable t)))
     \<and> rd_attrs (rd (snd (resourceAwsEc2TransitGatewayRouteTableRead h meta r))) ''tags'' =
            Some (VMap (\<lambda>k. if reservedKey h k \<or> IgnoreTagsConfig meta k then None
                            else Ec2KeyValueTags (Tags t) k))
     \<and> rd_attrs (rd (snd (resourceAwsEc2TransitGatewayRouteTableRead h meta r)))
          ''transit_gateway_id'' = Some (VString (aws_StringValue (TransitGatewayId t)))
     \<and> rd_attrs (rd (snd (resourceAwsEc2TransitGatewayRouteTableRead h meta r))) ''arn'' =
            Some (VString (''arn:'' @ partition meta @ '':ec2:'' @ region meta @ '':'' @
                           accountid meta @ '':transit-gateway-route-table/'' @ rd_id (rd r)))"
  by (simp add: Read_live [OF D L1 L2] filtered_tags ARN_String_def ServiceName_def)

lemma sample_tags_filtered:
  "(\<lambda>k. if take 4 k = ''aws:'' \<or> k = ''scratch'' then None
         else Ec2KeyValueTags (Tags sample_table) k) = [''env'' \<mapsto> ''prod'']"
  by (rule ext) (simp add: Ec2KeyValueTags_def sample_table_def aws_StringValue_def)

theorem Read_populates_attributes_witness:
  "ec2DescribeTransitGatewayRouteTable sample_helpers (ec2conn sample_meta)
       (rd_id (rd sample_existing)) = (Some sample_table, None)
   \<and> aws_StringValue (State sample_table) = ''available''
   \<and> fst (resourceAwsEc2TransitGatewayRouteTableRead sample_helpers sample_meta
        sample_existing) = Returned None
   \<and> rd_attrs (rd (snd (resourceAwsEc2TransitGatewayRouteTableRead sample_helpers sample_meta
        sample_existing))) ''default_association_route_table'' = Some (VBool False)
   \<and> rd_attrs (rd (snd (resourceAwsEc2TransitGatewayRouteTableRead sample_helpers sample_meta
        sample_existing))) ''tags'' = Some (VMap [''env'' \<mapsto> ''prod''])
   \<and> rd_attrs (rd (snd (resourceAwsEc2TransitGatewayRouteTableRead sample_helpers sample_meta
        sample_existing))) ''transit_gateway_id'' = Some (VString ''tgw-123'')
   \<and> rd_attrs (rd (snd (resourceAwsEc2TransitGatewayRouteTableRead sample_helpers sample_meta
        sample_existing))) ''arn'' =
       Some (VString ''arn:aws:ec2:us-west-2:123456789012:transit-gateway-route-table/tgw-rtb-abc'')"
proof -
  have D: "ec2DescribeTransitGatewayRouteTable sample_helpers (ec2conn sample_meta)
       (rd_id (rd sample_existing)) = (Some sample_table, None)"
    by (simp add: sample_helpers_def)
  have S: "aws_StringValue (State sample_table) = ''available''"
    by (simp add: sample_table_def aws_StringValue_def)
  have L1: "aws_StringValue (State sample_table) \<noteq> ''deleting''"
    and L2: "aws_StringValue (State sample_table) \<noteq> ''deleted''"
    by (simp_all add: S)
  have T: "aws_BoolValue (DefaultAssociationRouteTable sample_table) = False"
    "aws_StringValue (TransitGatewayId sample_table) = ''tgw-123''"
    by (simp_all add: sample_table_def aws_BoolValue_def aws_StringValue_def)
  have M: "partition sample_meta = ''aws''" "region sample_meta = ''us-west-2''"
    "accountid sample_meta = ''123456789012''" "IgnoreTagsConfig sample_meta = (\<lambda>k. k = ''scratch'')"
    by (simp_all add: sample_meta_def)
  have H: "reservedKey sample_helpers = (\<lambda>k. take 4 k = ''aws:'')"
    by (simp add: sample_helpers_def)
  have I: "rd_id (rd sample_existing) = ''tgw-rtb-abc''"
    by (simp add: sample_existing_def)
  show ?thesis
    using D S Read_populates_attributes [OF D L1 L2]
    by (simp add: T M H I sample_tags_filtered)
qed

section \<open>Create\<close>

lemma Create_call_failed:
  assumes G1: "ResourceData_Get (rd r) ''transit_gateway_id'' = VString tgw"
    and G2: "ResourceData_Get (rd r) ''tags'' = VMap tags"
    and C: "CreateTransitGatewayRouteTable (ec2conn meta)
              \<lparr>CreateInput_TransitGatewayId = Some tgw,
               CreateInput_TagSpecifications =
                 ec2TagSpecificationsFromMap tags ''transit-gateway-route-table''\<rparr> = (out, Some e)"
  shows "resourceAwsEc2TransitGatewayRouteTableCreate h meta r =
           (Returned (Some (errorString
              (''error creating EC2 Transit Gateway Route Table: '' @ Error e))),
            emit (Call_CreateTransitGatewayRouteTable
                    \<lparr>CreateInput_TransitGatewayId = Some tgw,
                     CreateInput_TagSpecifications =
                       ec2TagSpecificationsFromMap tags ''transit-gateway-route-table''\<rparr>) r)"
  using C
  by (simp add: resourceAwsEc2TransitGatewayRouteTableCreate_def Let_def G1 G2 aws_String_def
        ResourceTypeTransitGatewayRouteTable_def)

lemma Create_call_nil_output:
  assumes G1: "ResourceData_Get (rd r) ''transit_gateway_id'' = VString tgw"
    and G2: "ResourceData_Get (rd r) ''tags'' = VMap tags"
    and C: "CreateTransitGatewayRouteTable (ec2conn meta)
              \<lparr>CreateInput_TransitGatewayId = Some tgw,
               CreateInput_TagSpecifications =
                 ec2TagSpecificationsFromMap tags ''transit-gateway-route-table''\<rparr> = (out, None)"
    and N: "out = None \<or> (\<exists>v. out = Some v \<and> Output_TransitGatewayRouteTable v = None)"
  shows "resourceAwsEc2TransitGatewayRouteTableCreate h meta r =
           (Panicked,
            emit (Call_CreateTransitGatewayRouteTable
                    \<lparr>CreateInput_TransitGatewayId = Some tgw,
                     CreateInput_TagSpecifications =
                       ec2TagSpecificationsFromMap tags ''transit-gateway-route-table''\<rparr>) r)"
  using C N
  by (auto simp: resourceAwsEc2TransitGatewayRouteTableCreate_def Let_def G1 G2 aws_String_def
        ResourceTypeTransitGatewayRouteTable_def)

lemma Create_call_succeeded:
  assumes G1: "ResourceData_Get (rd r) ''transit_gateway_id'' = VString tgw"
    and G2: "ResourceData_Get (rd r) ''tags'' = VMap tags"
    and C: "CreateTransitGatewayRouteTable (ec2conn meta)
              \<lparr>CreateInput_TransitGatewayId = Some tgw,
               CreateInput_TagSpecifications =
                 ec2TagSpecificationsFromMap tags ''transit-gateway-route-table''\<rparr> =
            (Some out, None)"
    and T: "Output_TransitGatewayRouteTable out = Some t"
  shows "resourceAwsEc2TransitGatewayRouteTableCreate h meta r =
     (case waitForEc2TransitGatewayRouteTableCreation h (ec2conn meta)
             (aws_StringValue (TransitGatewayRouteTableId t)) of
        Some e \<Rightarrow>
          (Returned (Some (errorString
             (''error waiting for EC2 Transit Gateway Route Table ('' @
              aws_StringValue (TransitGatewayRouteTableId t) @ '') availability: '' @ Error e))),
           (r\<lparr>rd := (rd r)\<lparr>rd_id := aws_StringValue (TransitGatewayRouteTableId t)\<rparr>,
              log := log r @
              [Call_CreateTransitGatewayRouteTable
                 \<lparr>CreateInput_TransitGatewayId = Some tgw,
                  CreateInput_TagSpecifications =
                    ec2TagSpecificationsFromMap tags ''transit-gateway-route-table''\<rparr>,
               Write_SetId (aws_StringValue (TransitGatewayRouteTableId t)),
               Call_waitForCreation (aws_StringValue (TransitGatewayRouteTableId t))]\<rparr>))
      | None \<Rightarrow>
          resourceAwsEc2TransitGatewayRouteTableRead h meta
           (r\<lparr>rd := (rd r)\<lparr>rd_id := aws_StringValue (TransitGatewayRouteTableId t)\<rparr>,
              log := log r @
              [Call_CreateTransitGatewayRouteTable
                 \<lparr>CreateInput_TransitGatewayId = Some tgw,
                  CreateInput_TagSpecifications =
                    ec2TagSpecificationsFromMap tags ''transit-gateway-route-table''\<rparr>,
               Write_SetId (aws_StringValue (TransitGatewayRouteTableId t)),
               Call_waitForCreation (aws_StringValue (TransitGatewayRouteTableId t))]\<rparr>))"
  using C T
  by (simp add: resourceAwsEc2TransitGatewayRouteTableCreate_def Let_def G1 G2 aws_String_def
        ResourceTypeTransitGatewayRouteTable_def ResourceData_SetId_def ResourceData_Id_def
        emit_def split: option.splits)

lemma Delete_rd: "rd (snd (resourceAwsEc2TransitGatewayRouteTableDelete h meta r)) = rd r"
  by (simp add: resourceAwsEc2TransitGatewayRouteTableDelete_def Let_def emit_def
        split: option.splits)

lemma Update_rd: "rd (snd (resourceAwsEc2TransitGatewayRouteTableUpdate h meta r)) = rd r"
  by (simp add: resourceAwsEc2TransitGatewayRouteTableUpdate_def Let_def emit_def
        split: prod.splits option.splits)

lemma sample_new_transit_gateway_id:
  "ResourceData_Get (rd sample_new) ''transit_gateway_id'' = VString ''tgw-123''"
  by (simp add: ResourceData_Get_def read_field_def Schema_transit_gateway_id sample_new_def
        sample_config_def)

lemma sample_new_tags:
  "ResourceData_Get (rd sample_new) ''tags'' = VMap [''env'' \<mapsto> ''prod'']"
  by (simp add: ResourceData_Get_def read_field_def Schema_tags tagsSchema_def sample_new_def
        sample_config_def)

text \<open>
  Claim C3. When the remote creation call returns an error, Create returns that error
  wrapped in the creating context and records no identifier: the resource data is exactly
  as before (an empty identifier stays empty) and no write event is in the log.
\<close>

theorem Create_call_error_records_no_identifier:
  assumes G1: "ResourceData_Get (rd r) ''transit_gateway_id'' = VString tgw"
    and G2: "ResourceData_Get (rd r) ''tags'' = VMap tags"
    and C: "CreateTransitGatewayRouteTable (ec2conn meta)
              \<lparr>CreateInput_TransitGatewayId = Some tgw,
               CreateInput_TagSpecifications =
                 ec2TagSpecificationsFromMap tags ''transit-gateway-route-table''\<rparr> = (out, Some e)"
  shows "fst (resourceAwsEc2TransitGatewayRouteTableCreate h meta r) =
           Returned (Some (errorString
             (''error creating EC2 Transit Gateway Route Table: '' @ Error e)))
         \<and> rd (snd (resourceAwsEc2TransitGatewayRouteTableCreate h meta r)) = rd r
         \<and> filter is_write (log (snd (resourceAwsEc2TransitGatewayRouteTableCreate h meta r))) =
             filter is_write (log r)"
  by (simp add: Create_call_failed [OF G1 G2 C] emit_def)

theorem Create_call_error_records_no_identifier_witness:
  "fst (resourceAwsEc2TransitGatewayRouteTableCreate sample_helpers
        (sample_meta\<lparr>ec2conn :=
           sample_conn\<lparr>CreateTransitGatewayRouteTable := (\<lambda>input. (None, Some sample_failure))\<rparr>\<rparr>)
        sample_new) =
     Returned (Some (errorString
       ''error creating EC2 Transit Gateway Route Table: RequestLimitExceeded: slow down''))
   \<and> rd_id (rd (snd (resourceAwsEc2TransitGatewayRouteTableCreate sample_helpers
        (sample_meta\<lparr>ec2conn :=
           sample_conn\<lparr>CreateTransitGatewayRouteTable := (\<lambda>input. (None, Some sample_failure))\<rparr>\<rparr>)
        sample_new))) = []"
proof -
  have C: "CreateTransitGatewayRouteTable
        (ec2conn (sample_meta\<lparr>ec2conn :=
           sample_conn\<lparr>CreateTransitGatewayRouteTable := (\<lambda>input. (None, Some sample_failure))\<rparr>\<rparr>))
        \<lparr>CreateInput_TransitGatewayId = Some ''tgw-123'',
         CreateInput_TagSpecifications =
           ec2TagSpecificationsFromMap [''env'' \<mapsto> ''prod''] ''transit-gateway-route-table''\<rparr> =
        (None, Some sample_failure)"
    by simp
  have E: "Error sample_failure = ''RequestLimitExceeded: slow down''"
    by (simp add: sample_failure_def)
  have I: "rd_id (rd sample_new) = []"
    by (simp add: sample_new_def)
  show ?thesis
    using Create_call_error_records_no_identifier
            [OF sample_new_transit_gateway_id sample_new_tags C, of sample_helpers]
    by (simp add: E I)
qed

text \<open>
  Claim C4. When the remote creation call succeeds and the wait for availability fails,
  Create returns the wait's error wrapped in the waiting context, and the identifier taken
  from the creation response is the recorded identifier.
\<close>

theorem Create_wait_failure_keeps_identifier:
  assumes G1: "ResourceData_Get (rd r) ''transit_gateway_id'' = VString tgw"
    and G2: "ResourceData_Get (rd r) ''tags'' = VMap tags"
    and C: "CreateTransitGatewayRouteTable (ec2conn meta)
              \<lparr>CreateInput_TransitGatewayId = Some tgw,
               CreateInput_TagSpecifications =
                 ec2TagSpecificationsFromMap tags ''transit-gateway-route-table''\<rparr> =
            (Some out, None)"
    and T: "Output_TransitGatewayRouteTable out = Some t"
    and W: "waitForEc2TransitGatewayRouteTableCreation h (ec2conn meta)
              (aws_StringValue (TransitGatewayRouteTableId t)) = Some e"
  shows "fst (resourceAwsEc2TransitGatewayRouteTableCreate h meta r) =
           Returned (Some (errorString
             (''error waiting for EC2 Transit Gateway Route Table ('' @
              aws_StringValue (TransitGatewayRouteTableId t) @ '') availability: '' @ Error e)))
         \<and> rd_id (rd (snd (resourceAwsEc2TransitGatewayRouteTableCreate h meta r))) =
             aws_StringValue (TransitGatewayRouteTableId t)"
  by (simp add: Create_call_succeeded [OF G1 G2 C T] W)

theorem Create_wait_failure_keeps_identifier_witness:
  "fst (resourceAwsEc2TransitGatewayRouteTableCreate
        (sample_helpers\<lparr>waitForEc2TransitGatewayRouteTableCreation :=
           (\<lambda>conn i. Some sample_timeout)\<rparr>) sample_meta sample_new) =
     Returned (Some (errorString
       ''error waiting for EC2 Transit Gateway Route Table (tgw-rtb-abc) availability: timeout while waiting for state''))
   \<and> rd_id (rd (snd (resourceAwsEc2TransitGatewayRouteTableCreate
        (sample_helpers\<lparr>waitForEc2TransitGatewayRouteTableCreation :=
           (\<lambda>conn i. Some sample_timeout)\<rparr>) sample_meta sample_new))) = ''tgw-rtb-abc''"
proof -
  have C: "CreateTransitGatewayRouteTable (ec2conn sample_meta)
        \<lparr>CreateInput_TransitGatewayId = Some ''tgw-123'',
         CreateInput_TagSpecifications =
           ec2TagSpecificationsFromMap [''env'' \<mapsto> ''prod''] ''transit-gateway-route-table''\<rparr> =
        (Some \<lparr>Output_TransitGatewayRouteTable = Some sample_table\<rparr>, None)"
    by (simp add: sample_meta_def sample_conn_def)
  have T: "Output_TransitGatewayRouteTable
             \<lparr>Output_TransitGatewayRouteTable = Some sample_table\<rparr> = Some sample_table"
    by simp
  have W: "waitForEc2TransitGatewayRouteTableCreation
        (sample_helpers\<lparr>waitForEc2TransitGatewayRouteTableCreation :=
           (\<lambda>conn i. Some sample_timeout)\<rparr>) (ec2conn sample_meta)
        (aws_StringValue (TransitGatewayRouteTableId sample_table)) = Some sample_timeout"
    by simp
  have I: "aws_StringValue (TransitGatewayRouteTableId sample_table) = ''tgw-rtb-abc''"
    by (simp add: sample_table_def aws_StringValue_def)
  have E: "Error sample_timeout = ''timeout while waiting for state''"
    by (simp add: sample_timeout_def)
  show ?thesis
    using Create_wait_failure_keeps_identifier
            [OF sample_new_transit_gateway_id sample_new_tags C T W]
    by (simp add: I E)
qed

lemma sample_create_answer:
  "CreateTransitGatewayRouteTable (ec2conn sample_meta)
        \<lparr>CreateInput_TransitGatewayId = Some ''tgw-123'',
         CreateInput_TagSpecifications =
           ec2TagSpecificationsFromMap [''env'' \<mapsto> ''prod''] ''transit-gateway-route-table''\<rparr> =
        (Some \<lparr>Output_TransitGatewayRouteTable = Some sample_table\<rparr>, None)"
  by (simp add: sample_meta_def sample_conn_def)

lemma sample_table_id:
  "aws_StringValue (TransitGatewayRouteTableId sample_table) = ''tgw-rtb-abc''"
  by (simp add: sample_table_def aws_StringValue_def)

section \<open>The identifier across the four handlers\<close>

lemma Read_id_exact:
  assumes D: "ec2DescribeTransitGatewayRouteTable h (ec2conn meta) (rd_id (rd r)) = (t, err)"
  shows "rd_id (rd (snd (resourceAwsEc2TransitGatewayRouteTableRead h meta r))) =
     (if isAWSErr err ''InvalidRouteTableID.NotFound'' []
          \<or> (err = None \<and> (t = None \<or> (\<exists>d. t = Some d \<and>
               (aws_StringValue (State d) = ''deleting'' \<or> aws_StringValue (State d) = ''deleted''))))
      then [] else rd_id (rd r))"
proof -
  consider
    (absent) "isAWSErr err ''InvalidRouteTableID.NotFound'' [] \<or> (err = None \<and> t = None)
         \<or> (err = None \<and> (\<exists>d. t = Some d \<and>
               (aws_StringValue (State d) = ''deleting'' \<or> aws_StringValue (State d) = ''deleted'')))"
  | (failed) e where "err = Some e" "\<not> isAWSErr (Some e) ''InvalidRouteTableID.NotFound'' []"
  | (found) d where "err = None" "t = Some d" "aws_StringValue (State d) \<noteq> ''deleting''"
      "aws_StringValue (State d) \<noteq> ''deleted''"
    by (cases err; cases t) blast+
  then show ?thesis
  proof cases
    case absent
    then have G: "isAWSErr err ''InvalidRouteTableID.NotFound'' []
          \<or> (err = None \<and> (t = None \<or> (\<exists>d. t = Some d \<and>
               (aws_StringValue (State d) = ''deleting'' \<or> aws_StringValue (State d) = ''deleted''))))"
      by blast
    show ?thesis
      unfolding if_P [OF G]
      by (simp add: Read_absent [OF D absent] ResourceData_SetId_def emit_def)
  next
    case failed
    from D failed(1)
    have D': "ec2DescribeTransitGatewayRouteTable h (ec2conn meta) (rd_id (rd r)) = (t, Some e)"
      by simp
    have G: "\<not> (isAWSErr err ''InvalidRouteTableID.NotFound'' []
          \<or> (err = None \<and> (t = None \<or> (\<exists>d. t = Some d \<and>
               (aws_StringValue (State d) = ''deleting'' \<or> aws_StringValue (State d) = ''deleted'')))))"
      using failed by auto
    show ?thesis
      unfolding if_not_P [OF G]
      by (simp add: Read_error [OF D' failed(2)] emit_def)
  next
    case found
    from D found(1,2)
    have D': "ec2DescribeTransitGatewayRouteTable h (ec2conn meta) (rd_id (rd r)) = (Some d, None)"
      by simp
    have G: "\<not> (isAWSErr err ''InvalidRouteTableID.NotFound'' []
          \<or> (err = None \<and> (t = None \<or> (\<exists>d. t = Some d \<and>
               (aws_StringValue (State d) = ''deleting'' \<or> aws_StringValue (State d) = ''deleted'')))))"
      using found by (auto simp: isAWSErr_None)
    show ?thesis
      unfolding if_not_P [OF G]
      by (simp add: Read_live [OF D' found(3,4)])
  qed
qed

lemma Create_id_exact:
  assumes G1: "ResourceData_Get (rd r) ''transit_gateway_id'' = VString tgw"
    and G2: "ResourceData_Get (rd r) ''tags'' = VMap tags"
    and C: "CreateTransitGatewayRouteTable (ec2conn meta)
              \<lparr>CreateInput_TransitGatewayId = Some tgw,
               CreateInput_TagSpecifications =
                 ec2TagSpecificationsFromMap tags ''transit-gateway-route-table''\<rparr> =
            (Some v, None)"
    and T: "Output_TransitGatewayRouteTable v = Some rt"
    and D: "ec2DescribeTransitGatewayRouteTable h (ec2conn meta)
              (aws_StringValue (TransitGatewayRouteTableId rt)) = (t, err)"
  shows "rd_id (rd (snd (resourceAwsEc2TransitGatewayRouteTableCreate h meta r))) =
     (if waitForEc2TransitGatewayRouteTableCreation h (ec2conn meta)
            (aws_StringValue (TransitGatewayRouteTableId rt)) = None
         \<and> (isAWSErr err ''InvalidRouteTableID.NotFound'' []
              \<or> (err = None \<and> (t = None \<or> (\<exists>d. t = Some d \<and>
                   (aws_StringValue (State d) = ''deleting''
                    \<or> aws_StringValue (State d) = ''deleted'')))))
      then [] else aws_StringValue (TransitGatewayRouteTableId rt))"
proof (cases "waitForEc2TransitGatewayRouteTableCreation h (ec2conn meta)
                (aws_StringValue (TransitGatewayRouteTableId rt))")
  case (Some e)
  then show ?thesis
    by (simp add: Create_call_succeeded [OF G1 G2 C T])
next
  case None
  let ?r3 = "r\<lparr>rd := (rd r)\<lparr>rd_id := aws_StringValue (TransitGatewayRouteTableId rt)\<rparr>,
            log := log r @
              [Call_CreateTransitGatewayRouteTable
                 \<lparr>CreateInput_TransitGatewayId = Some tgw,
                  CreateInput_TagSpecifications =
                    ec2TagSpecificationsFromMap tags ''transit-gateway-route-table''\<rparr>,
               Write_SetId (aws_StringValue (TransitGatewayRouteTableId rt)),
               Call_waitForCreation (aws_StringValue (TransitGatewayRouteTableId rt))]\<rparr>"
  have E: "resourceAwsEc2TransitGatewayRouteTableCreate h meta r =
           resourceAwsEc2TransitGatewayRouteTableRead h meta ?r3"
    using Create_call_succeeded [OF G1 G2 C T, of h] by (simp only: None option.case)
  have D': "ec2DescribeTransitGatewayRouteTable h (ec2conn meta) (rd_id (rd ?r3)) = (t, err)"
    using D by simp
  have I: "rd_id (rd ?r3) = aws_StringValue (TransitGatewayRouteTableId rt)"
    by simp
  show ?thesis
    unfolding E Read_id_exact [OF D'] I using None by simp
qed

lemma Create_id_unchanged:
  assumes G1: "ResourceData_Get (rd r) ''transit_gateway_id'' = VString tgw"
    and G2: "ResourceData_Get (rd r) ''tags'' = VMap tags"
    and C: "CreateTransitGatewayRouteTable (ec2conn meta)
              \<lparr>CreateInput_TransitGatewayId = Some tgw,
               CreateInput_TagSpecifications =
                 ec2TagSpecificationsFromMap tags ''transit-gateway-route-table''\<rparr> = (out, cerr)"
    and F: "cerr \<noteq> None \<or> out = None
            \<or> (\<exists>v. out = Some v \<and> Output_TransitGatewayRouteTable v = None)"
  shows "rd (snd (resourceAwsEc2TransitGatewayRouteTableCreate h meta r)) = rd r"
proof (cases cerr)
  case (Some e)
  with C have "CreateTransitGatewayRouteTable (ec2conn meta)
              \<lparr>CreateInput_TransitGatewayId = Some tgw,
               CreateInput_TagSpecifications =
                 ec2TagSpecificationsFromMap tags ''transit-gateway-route-table''\<rparr> = (out, Some e)"
    by simp
  from Create_call_failed [OF G1 G2 this] show ?thesis
    by (simp add: emit_def)
next
  case None
  with C have C': "CreateTransitGatewayRouteTable (ec2conn meta)
              \<lparr>CreateInput_TransitGatewayId = Some tgw,
               CreateInput_TagSpecifications =
                 ec2TagSpecificationsFromMap tags ''transit-gateway-route-table''\<rparr> = (out, None)"
    by simp
  from F None
  have "out = None \<or> (\<exists>v. out = Some v \<and> Output_TransitGatewayRouteTable v = None)"
    by blast
  from Create_call_nil_output [OF G1 G2 C' this] show ?thesis
    by (simp add: emit_def)
qed

text \<open>
  Claim C7. The identifier of a new resource stays empty until the creation call
  succeeds, and once set it is never replaced by another value while the route table
  exists. Update and Delete leave the identifier as it is. Read leaves it as it is, except
  that it clears it exactly when the describe answer says the route table is gone
  (not-found, no descriptor, deleting or deleted), which ends the entity's lifetime.
  Create on a new resource ends with an empty identifier when the creation call fails or
  answers without a route table; after a successful creation call it ends with the
  identifier of the creation response, unless its final Read finds the route table gone.
\<close>

theorem identifier_fixed_for_lifetime:
  assumes D: "ec2DescribeTransitGatewayRouteTable h (ec2conn meta) (rd_id (rd r)) = (t, err)"
    and N: "rd_id (rd rn) = []"
    and G1: "ResourceData_Get (rd rn) ''transit_gateway_id'' = VString tgw"
    and G2: "ResourceData_Get (rd rn) ''tags'' = VMap tags"
    and C: "CreateTransitGatewayRouteTable (ec2conn meta)
              \<lparr>CreateInput_TransitGatewayId = Some tgw,
               CreateInput_TagSpecifications =
                 ec2TagSpecificationsFromMap tags ''transit-gateway-route-table''\<rparr> = (out, cerr)"
  shows
    "rd_id (rd (snd (resourceAwsEc2TransitGatewayRouteTableUpdate h meta r))) = rd_id (rd r)
     \<and> rd_id (rd (snd (resourceAwsEc2TransitGatewayRouteTableDelete h meta r))) = rd_id (rd r)
     \<and> rd_id (rd (snd (resourceAwsEc2TransitGatewayRouteTableRead h meta r))) =
         (if isAWSErr err ''InvalidRouteTableID.NotFound'' []
              \<or> (err = None \<and> (t = None \<or> (\<exists>d. t = Some d \<and>
                   (aws_StringValue (State d) = ''deleting''
                    \<or> aws_StringValue (State d) = ''deleted''))))
          then [] else rd_id (rd r))
     \<and> (cerr \<noteq> None \<or> out = None
            \<or> (\<exists>v. out = Some v \<and> Output_TransitGatewayRouteTable v = None)
          \<longrightarrow> rd_id (rd (snd (resourceAwsEc2TransitGatewayRouteTableCreate h meta rn))) = [])
     \<and> (\<forall>v rt t2 err2.
           cerr = None \<and> out = Some v \<and> Output_TransitGatewayRouteTable v = Some rt
           \<and> ec2DescribeTransitGatewayRouteTable h (ec2conn meta)
                (aws_StringValue (TransitGatewayRouteTableId rt)) = (t2, err2)
           \<longrightarrow> rd_id (rd (snd (resourceAwsEc2TransitGatewayRouteTableCreate h meta rn))) =
                (if waitForEc2TransitGatewayRouteTableCreation h (ec2conn meta)
                       (aws_StringValue (TransitGatewayRouteTableId rt)) = None
                    \<and> (isAWSErr err2 ''InvalidRouteTableID.NotFound'' []
                         \<or> (err2 = None \<and> (t2 = None \<or> (\<exists>d. t2 = Some d \<and>
                              (aws_StringValue (State d) = ''deleting''
                               \<or> aws_StringValue (State d) = ''deleted'')))))
                 then [] else aws_StringValue (TransitGatewayRouteTableId rt)))"
proof (intro conjI impI allI)
  show "rd_id (rd (snd (resourceAwsEc2TransitGatewayRouteTableUpdate h meta r))) = rd_id (rd r)"
    by (simp add: Update_rd)
  show "rd_id (rd (snd (resourceAwsEc2TransitGatewayRouteTableDelete h meta r))) = rd_id (rd r)"
    by (simp add: Delete_rd)
  show "rd_id (rd (snd (resourceAwsEc2TransitGatewayRouteTableRead h meta r))) =
         (if isAWSErr err ''InvalidRouteTableID.NotFound'' []
              \<or> (err = None \<and> (t = None \<or> (\<exists>d. t = Some d \<and>
                   (aws_StringValue (State d) = ''deleting''
                    \<or> aws_StringValue (State d) = ''deleted''))))
          then [] else rd_id (rd r))"
    by (rule Read_id_exact [OF D])
next
  assume F: "cerr \<noteq> None \<or> out = None
            \<or> (\<exists>v. out = Some v \<and> Output_TransitGatewayRouteTable v = None)"
  show "rd_id (rd (snd (resourceAwsEc2TransitGatewayRouteTableCreate h meta rn))) = []"
    by (simp add: Create_id_unchanged [OF G1 G2 C F] N)
next
  fix v rt t2 err2
  assume A: "cerr = None \<and> out = Some v \<and> Output_TransitGatewayRouteTable v = Some rt
           \<and> ec2DescribeTransitGatewayRouteTable h (ec2conn meta)
                (aws_StringValue (TransitGatewayRouteTableId rt)) = (t2, err2)"
  from A C have C': "CreateTransitGatewayRouteTable (ec2conn meta)
              \<lparr>CreateInput_TransitGatewayId = Some tgw,
               CreateInput_TagSpecifications =
                 ec2TagSpecificationsFromMap tags ''transit-gateway-route-table''\<rparr> =
            (Some v, None)"
    by simp
  from A have T: "Output_TransitGatewayRouteTable v = Some rt"
    and D2: "ec2DescribeTransitGatewayRouteTable h (ec2conn meta)
                (aws_StringValue (TransitGatewayRouteTableId rt)) = (t2, err2)"
    by blast+
  show "rd_id (rd (snd (resourceAwsEc2TransitGatewayRouteTableCreate h meta rn))) =
                (if waitForEc2TransitGatewayRouteTableCreation h (ec2conn meta)
                       (aws_StringValue (TransitGatewayRouteTableId rt)) = None
                    \<and> (isAWSErr err2 ''InvalidRouteTableID.NotFound'' []
                         \<or> (err2 = None \<and> (t2 = None \<or> (\<exists>d. t2 = Some d \<and>
                              (aws_StringValue (State d) = ''deleting''
                               \<or> aws_StringValue (State d) = ''deleted'')))))
                 then [] else aws_StringValue (TransitGatewayRouteTableId rt))"
    by (rule Create_id_exact [OF G1 G2 C' T D2])
qed

theorem identifier_fixed_for_lifetime_witness:
  "rd_id (rd sample_existing) = ''tgw-rtb-abc''
   \<and> rd_id (rd (snd (resourceAwsEc2TransitGatewayRouteTableUpdate sample_helpers sample_meta
        sample_existing))) = ''tgw-rtb-abc''
   \<and> rd_id (rd (snd (resourceAwsEc2TransitGatewayRouteTableDelete sample_helpers sample_meta
        sample_existing))) = ''tgw-rtb-abc''
   \<and> rd_id (rd (snd (resourceAwsEc2TransitGatewayRouteTableRead sample_helpers sample_meta
        sample_existing))) = ''tgw-rtb-abc''
   \<and> rd_id (rd (snd (resourceAwsEc2TransitGatewayRouteTableRead
        (sample_helpers\<lparr>ec2DescribeTransitGatewayRouteTable :=
           (\<lambda>conn i. (None, Some sample_not_found))\<rparr>) sample_meta sample_existing))) = []
   \<and> rd_id (rd sample_new) = []
   \<and> rd_id (rd (snd (resourceAwsEc2TransitGatewayRouteTableCreate sample_helpers
        (sample_meta\<lparr>ec2conn :=
           sample_conn\<lparr>CreateTransitGatewayRouteTable := (\<lambda>input. (None, Some sample_failure))\<rparr>\<rparr>)
        sample_new))) = []
   \<and> rd_id (rd (snd (resourceAwsEc2TransitGatewayRouteTableCreate sample_helpers sample_meta
        sample_new))) = ''tgw-rtb-abc''
   \<and> rd_id (rd (snd (resourceAwsEc2TransitGatewayRouteTableCreate
        (sample_helpers\<lparr>ec2DescribeTransitGatewayRouteTable :=
           (\<lambda>conn i. (None, Some sample_not_found))\<rparr>) sample_meta sample_new))) = []"
proof -
  let ?gone = "sample_helpers\<lparr>ec2DescribeTransitGatewayRouteTable :=
           (\<lambda>conn i. (None, Some sample_not_found))\<rparr>"
  let ?failing = "sample_meta\<lparr>ec2conn :=
           sample_conn\<lparr>CreateTransitGatewayRouteTable := (\<lambda>input. (None, Some sample_failure))\<rparr>\<rparr>"
  have I: "rd_id (rd sample_existing) = ''tgw-rtb-abc''"
    by (simp add: sample_existing_def)
  have N: "rd_id (rd sample_new) = []"
    by (simp add: sample_new_def)
  have NF: "isAWSErr (Some sample_not_found) ''InvalidRouteTableID.NotFound'' []"
    by (simp add: isAWSErr_def sample_not_found_def)
  have S: "aws_StringValue (State sample_table) = ''available''"
    by (simp add: sample_table_def aws_StringValue_def)
  have O: "Output_TransitGatewayRouteTable
             \<lparr>Output_TransitGatewayRouteTable = Some sample_table\<rparr> = Some sample_table"
    by simp
  have D1: "ec2DescribeTransitGatewayRouteTable sample_helpers (ec2conn sample_meta)
              (rd_id (rd sample_existing)) = (Some sample_table, None)"
    by (simp add: sample_helpers_def)
  have D1': "ec2DescribeTransitGatewayRouteTable sample_helpers (ec2conn sample_meta)
              (aws_StringValue (TransitGatewayRouteTableId sample_table)) =
             (Some sample_table, None)"
    by (simp add: sample_helpers_def)
  have W1: "waitForEc2TransitGatewayRouteTableCreation sample_helpers (ec2conn sample_meta)
              (aws_StringValue (TransitGatewayRouteTableId sample_table)) = None"
    by (simp add: sample_helpers_def)
  have D2: "ec2DescribeTransitGatewayRouteTable ?gone (ec2conn sample_meta)
              (rd_id (rd sample_existing)) = (None, Some sample_not_found)"
    by simp
  have D2': "ec2DescribeTransitGatewayRouteTable ?gone (ec2conn sample_meta)
              (aws_StringValue (TransitGatewayRouteTableId sample_table)) =
             (None, Some sample_not_found)"
    by simp
  have W2: "waitForEc2TransitGatewayRouteTableCreation ?gone (ec2conn sample_meta)
              (aws_StringValue (TransitGatewayRouteTableId sample_table)) = None"
    by (simp add: sample_helpers_def)
  have D3: "ec2DescribeTransitGatewayRouteTable sample_helpers (ec2conn ?failing)
              (rd_id (rd sample_existing)) = (Some sample_table, None)"
    by (simp add: sample_helpers_def)
  have C3: "CreateTransitGatewayRouteTable (ec2conn ?failing)
        \<lparr>CreateInput_TransitGatewayId = Some ''tgw-123'',
         CreateInput_TagSpecifications =
           ec2TagSpecificationsFromMap [''env'' \<mapsto> ''prod''] ''transit-gateway-route-table''\<rparr> =
        (None, Some sample_failure)"
    by simp
  note X1 = identifier_fixed_for_lifetime
              [OF D1 N sample_new_transit_gateway_id sample_new_tags sample_create_answer]
  note X2 = identifier_fixed_for_lifetime
              [OF D2 N sample_new_transit_gateway_id sample_new_tags sample_create_answer]
  note X3 = identifier_fixed_for_lifetime
              [OF D3 N sample_new_transit_gateway_id sample_new_tags C3]
  note U = X1 [THEN conjunct1]
  note De = X1 [THEN conjunct2, THEN conjunct1]
  have R1: "rd_id (rd (snd (resourceAwsEc2TransitGatewayRouteTableRead sample_helpers
             sample_meta sample_existing))) = rd_id (rd sample_existing)"
    using X1 [THEN conjunct2, THEN conjunct2, THEN conjunct1]
    by (simp add: isAWSErr_None S)
  have R2: "rd_id (rd (snd (resourceAwsEc2TransitGatewayRouteTableRead ?gone
             sample_meta sample_existing))) = []"
    using X2 [THEN conjunct2, THEN conjunct2, THEN conjunct1]
    by (simp add: NF)
  have C3': "rd_id (rd (snd (resourceAwsEc2TransitGatewayRouteTableCreate sample_helpers
             ?failing sample_new))) = []"
    using X3 [THEN conjunct2, THEN conjunct2, THEN conjunct2, THEN conjunct1]
    by simp
  have C1': "rd_id (rd (snd (resourceAwsEc2TransitGatewayRouteTableCreate sample_helpers
             sample_meta sample_new))) = ''tgw-rtb-abc''"
    using X1 [THEN conjunct2, THEN conjunct2, THEN conjunct2, THEN conjunct2, rule_format,
              of "\<lparr>Output_TransitGatewayRouteTable = Some sample_table\<rparr>" sample_table
                 "Some sample_table" None]
      D1' W1
    by (simp add: isAWSErr_None S sample_table_id)
  have C2': "rd_id (rd (snd (resourceAwsEc2TransitGatewayRouteTableCreate ?gone
             sample_meta sample_new))) = []"
    using X2 [THEN conjunct2, THEN conjunct2, THEN conjunct2, THEN conjunct2, rule_format,
              of "\<lparr>Output_TransitGatewayRouteTable = Some sample_table\<rparr>" sample_table
                 None "Some sample_not_found"]
      D2' W2 NF
    by simp
  show ?thesis
    using I N U De R1 R2 C3' C1' C2' by simp
qed

section \<open>Create followed by Read\<close>

text \<open>
  Claim C8, as stated, fails: with a non-empty transit gateway reference, Create returns
  success and yet the identifier is empty, because the Read it ends with finds the route
  table not-found and clears the identifier.
\<close>

theorem Create_success_with_cleared_identifier_counterexample:
  "ResourceData_Get (rd sample_new) ''transit_gateway_id'' = VString ''tgw-123''
   \<and> fst (resourceAwsEc2TransitGatewayRouteTableCreate
        (sample_helpers\<lparr>ec2DescribeTransitGatewayRouteTable :=
           (\<lambda>conn i. (None, Some sample_not_found))\<rparr>) sample_meta sample_new) = Returned None
   \<and> rd_id (rd (snd (resourceAwsEc2TransitGatewayRouteTableCreate
        (sample_helpers\<lparr>ec2DescribeTransitGatewayRouteTable :=
           (\<lambda>conn i. (None, Some sample_not_found))\<rparr>) sample_meta sample_new))) = []"
proof -
  let ?h = "sample_helpers\<lparr>ec2DescribeTransitGatewayRouteTable :=
           (\<lambda>conn i. (None, Some sample_not_found))\<rparr>"
  let ?r3 = "sample_new\<lparr>rd := (rd sample_new)\<lparr>rd_id :=
                 aws_StringValue (TransitGatewayRouteTableId sample_table)\<rparr>,
              log := log sample_new @
              [Call_CreateTransitGatewayRouteTable
                 \<lparr>CreateInput_TransitGatewayId = Some ''tgw-123'',
                  CreateInput_TagSpecifications =
                    ec2TagSpecificationsFromMap [''env'' \<mapsto> ''prod'']
                      ''transit-gateway-route-table''\<rparr>,
               Write_SetId (aws_StringValue (TransitGatewayRouteTableId sample_table)),
               Call_waitForCreation
                 (aws_StringValue (TransitGatewayRouteTableId sample_table))]\<rparr>"
  have T: "Output_TransitGatewayRouteTable
             \<lparr>Output_TransitGatewayRouteTable = Some sample_table\<rparr> = Some sample_table"
    by simp
  have W: "waitForEc2TransitGatewayRouteTableCreation ?h (ec2conn sample_meta)
             (aws_StringValue (TransitGatewayRouteTableId sample_table)) = None"
    by (simp add: sample_helpers_def)
  have E: "resourceAwsEc2TransitGatewayRouteTableCreate ?h sample_meta sample_new =
           resourceAwsEc2TransitGatewayRouteTableRead ?h sample_meta ?r3"
    using Create_call_succeeded
            [OF sample_new_transit_gateway_id sample_new_tags sample_create_answer T, of ?h]
    by (simp only: W option.case)
  have D: "ec2DescribeTransitGatewayRouteTable ?h (ec2conn sample_meta) (rd_id (rd ?r3)) =
             (None, Some sample_not_found)"
    by simp
  have N: "isAWSErr (Some sample_not_found) ''InvalidRouteTableID.NotFound'' []"
    by (simp add: isAWSErr_def sample_not_found_def)
  have R: "resourceAwsEc2TransitGatewayRouteTableRead ?h sample_meta ?r3 =
        (Returned None, ResourceData_SetId [] (emit (Call_Describe (rd_id (rd ?r3))) ?r3))"
    using N by (intro Read_absent [OF D]) simp
  show ?thesis
    by (simp add: sample_new_transit_gateway_id E R ResourceData_SetId_def emit_def)
qed

text \<open>
  Claim C8, amended. When the creation call and the wait for availability succeed, Create
  is Read run on the state that holds the identifier of the creation response. If the
  describe call of that Read returns a descriptor that is neither deleting nor deleted,
  Create returns success, the identifier is the one of the creation response (non-empty
  when the response's identifier is non-empty), and the stored transit gateway reference
  is the one the descriptor reports.
\<close>

theorem Create_delegates_to_Read:
  assumes G1: "ResourceData_Get (rd r) ''transit_gateway_id'' = VString tgw"
    and G2: "ResourceData_Get (rd r) ''tags'' = VMap tags"
    and C: "CreateTransitGatewayRouteTable (ec2conn meta)
              \<lparr>CreateInput_TransitGatewayId = Some tgw,
               CreateInput_TagSpecifications =
                 ec2TagSpecificationsFromMap tags ''transit-gateway-route-table''\<rparr> =
            (Some out, None)"
    and T: "Output_TransitGatewayRouteTable out = Some t"
    and W: "waitForEc2TransitGatewayRouteTableCreation h (ec2conn meta)
              (aws_StringValue (TransitGatewayRouteTableId t)) = None"
    and D: "ec2DescribeTransitGatewayRouteTable h (ec2conn meta)
              (aws_StringValue (TransitGatewayRouteTableId t)) = (Some d, None)"
    and L1: "aws_StringValue (State d) \<noteq> ''deleting''"
    and L2: "aws_StringValue (State d) \<noteq> ''deleted''"
    and NE: "aws_StringValue (TransitGatewayRouteTableId t) \<noteq> []"
  shows
    "resourceAwsEc2TransitGatewayRouteTableCreate h meta r =
       resourceAwsEc2TransitGatewayRouteTableRead h meta
         (r\<lparr>rd := (rd r)\<lparr>rd_id := aws_StringValue (TransitGatewayRouteTableId t)\<rparr>,
            log := log r @
              [Call_CreateTransitGatewayRouteTable
                 \<lparr>CreateInput_TransitGatewayId = Some tgw,
                  CreateInput_TagSpecifications =
                    ec2TagSpecificationsFromMap tags ''transit-gateway-route-table''\<rparr>,
               Write_SetId (aws_StringValue (TransitGatewayRouteTableId t)),
               Call_waitForCreation (aws_StringValue (TransitGatewayRouteTableId t))]\<rparr>)
     \<and> fst (resourceAwsEc2TransitGatewayRouteTableCreate h meta r) = Returned None
     \<and> rd_id (rd (snd (resourceAwsEc2TransitGatewayRouteTableCreate h meta r))) =
         aws_StringValue (TransitGatewayRouteTableId t)
     \<and> rd_id (rd (snd (resourceAwsEc2TransitGatewayRouteTableCreate h meta r))) \<noteq> []
     \<and> rd_attrs (rd (snd (resourceAwsEc2TransitGatewayRouteTableCreate h meta r)))
         ''transit_gateway_id'' = Some (VString (aws_StringValue (TransitGatewayId d)))"
proof -
  let ?r3 = "r\<lparr>rd := (rd r)\<lparr>rd_id := aws_StringValue (TransitGatewayRouteTableId t)\<rparr>,
            log := log r @
              [Call_CreateTransitGatewayRouteTable
                 \<lparr>CreateInput_TransitGatewayId = Some tgw,
                  CreateInput_TagSpecifications =
                    ec2TagSpecificationsFromMap tags ''transit-gateway-route-table''\<rparr>,
               Write_SetId (aws_StringValue (TransitGatewayRouteTableId t)),
               Call_waitForCreation (aws_StringValue (TransitGatewayRouteTableId t))]\<rparr>"
  have E: "resourceAwsEc2TransitGatewayRouteTableCreate h meta r =
           resourceAwsEc2TransitGatewayRouteTableRead h meta ?r3"
    using Create_call_succeeded [OF G1 G2 C T, of h] by (simp only: W option.case)
  have D': "ec2DescribeTransitGatewayRouteTable h (ec2conn meta) (rd_id (rd ?r3)) = (Some d, None)"
    using D by simp
  note R = Read_live [OF D' L1 L2]
  show ?thesis
    unfolding E using NE by (simp add: R)
qed

theorem Create_delegates_to_Read_witness:
  "fst (resourceAwsEc2TransitGatewayRouteTableCreate sample_helpers sample_meta sample_new) =
     Returned None
   \<and> rd_id (rd (snd (resourceAwsEc2TransitGatewayRouteTableCreate sample_helpers sample_meta
        sample_new))) = ''tgw-rtb-abc''
   \<and> rd_attrs (rd (snd (resourceAwsEc2TransitGatewayRouteTableCreate sample_helpers sample_meta
        sample_new))) ''transit_gateway_id'' = Some (VString ''tgw-123'')"
proof -
  have T: "Output_TransitGatewayRouteTable
             \<lparr>Output_TransitGatewayRouteTable = Some sample_table\<rparr> = Some sample_table"
    by simp
  have W: "waitForEc2TransitGatewayRouteTableCreation sample_helpers (ec2conn sample_meta)
             (aws_StringValue (TransitGatewayRouteTableId sample_table)) = None"
    by (simp add: sample_helpers_def)
  have D: "ec2DescribeTransitGatewayRouteTable sample_helpers (ec2conn sample_meta)
             (aws_StringValue (TransitGatewayRouteTableId sample_table)) = (Some sample_table, None)"
    by (simp add: sample_helpers_def)
  have S: "aws_StringValue (State sample_table) = ''available''"
    by (simp add: sample_table_def aws_StringValue_def)
  have L1: "aws_StringValue (State sample_table) \<noteq> ''deleting''"
    and L2: "aws_StringValue (State sample_table) \<noteq> ''deleted''"
    by (simp_all add: S)
  have NE: "aws_StringValue (TransitGatewayRouteTableId sample_table) \<noteq> []"
    by (simp add: sample_table_id)
  have G: "aws_StringValue (TransitGatewayId sample_table) = ''tgw-123''"
    by (simp add: sample_table_def aws_StringValue_def)
  note X = Create_delegates_to_Read
         [OF sample_new_transit_gateway_id sample_new_tags sample_create_answer T W D L1 L2 NE]
  from X have "fst (resourceAwsEc2TransitGatewayRouteTableCreate sample_helpers sample_meta
                 sample_new) = Returned None"
    by blast
  moreover from X
  have "rd_id (rd (snd (resourceAwsEc2TransitGatewayRouteTableCreate sample_helpers sample_meta
          sample_new))) = aws_StringValue (TransitGatewayRouteTableId sample_table)"
    by blast
  moreover from X
  have "rd_attrs (rd (snd (resourceAwsEc2TransitGatewayRouteTableCreate sample_helpers
          sample_meta sample_new))) ''transit_gateway_id'' =
        Some (VString (aws_StringValue (TransitGatewayId sample_table)))"
    by blast
  ultimately show ?thesis
    by (simp add: sample_table_id G)
qed

end
